theory Spec2Isabelle
  imports Main
begin

section \<open>Callbacks, errors and logging\<close>

text \<open>
  Every operation of the repository reports through a Node-style callback
  \<^verbatim>\<open>callback(err, value)\<close>, where \<^verbatim>\<open>err\<close> is an object \<^verbatim>\<open>{code, msg}\<close>.
  An operation can also throw (a dereference of \<^verbatim>\<open>undefined\<close>, an unbound
  variable), in which case the callback is not invoked by it, or fall through every
  branch without invoking the callback (\<open>NeverCalled\<close>).
\<close>

record error =
  code :: int
  msg :: string

datatype exn = TypeError | ReferenceError

datatype 'a outcome =
    CallbackErr error
  | CallbackOk 'a
  | Throws exn
  | NeverCalled

datatype log_level = Info | Warn | Error

type_synonym log_entry = "log_level \<times> string"

section \<open>Request values and parameter validation\<close>

text \<open>
  The values a caller can pass for a validated parameter. Numbers are integers in this
  development.
\<close>

datatype jsval = JUndefined | JNull | JBool bool | JNum int | JStr string | JObject

text \<open>
  Modelled from the spec: the parameter-validation capability (the Joi library, which
  is not among the sources), which "rejects malformed input before any store access,
  producing a uniform \<^verbatim>\<open>{code: 400, message}\<close> shape", the "first violation reported".
  Each check below yields the message of its first violation, if any. In a Joi schema
  a key is optional unless \<^verbatim>\<open>.required()\<close> is given, \<^verbatim>\<open>Joi.string()\<close> refuses the empty
  string, and \<^verbatim>\<open>Joi.number()\<close> converts a string that denotes a number (here: a decimal
  integer, numbers being integers).
\<close>

definition digit :: "char \<Rightarrow> bool" where
  "digit c = (c \<in> set ''0123456789'')"

text \<open>Modelled from the spec: the test of \<^verbatim>\<open>.alphanum()\<close>, one or more of a-z, A-Z, 0-9.\<close>

definition alphanum :: "string \<Rightarrow> bool" where
  "alphanum s = (s \<noteq> [] \<and>
     list_all (\<lambda>c. c \<in> set ''abcdefghijklmnopqrstuvwxyzABCDEFGHIJKLMNOPQRSTUVWXYZ0123456789'') s)"

text \<open>
  Modelled from the spec: the strings \<^verbatim>\<open>Joi.number()\<close> takes for a number, and the number
  a validated value stands for in a filter of the store.
\<close>

definition numeric_string :: "string \<Rightarrow> bool" where
  "numeric_string s =
     (if s \<noteq> [] \<and> hd s = CHR ''-'' then tl s \<noteq> [] \<and> list_all digit (tl s)
      else s \<noteq> [] \<and> list_all digit s)"

definition digits_value :: "string \<Rightarrow> int" where
  "digits_value ds = foldl (\<lambda>n c. 10 * n + (of_char c - 48)) 0 ds"

definition number_value :: "jsval \<Rightarrow> int" where
  "number_value v =
     (case v of
        JNum n \<Rightarrow> n
      | JStr s \<Rightarrow> (if s \<noteq> [] \<and> hd s = CHR ''-'' then - digits_value (tl s) else digits_value s)
      | _ \<Rightarrow> 0)"

definition string_value :: "jsval \<Rightarrow> string" where
  "string_value v = (case v of JStr s \<Rightarrow> s | _ \<Rightarrow> [])"

text \<open>
  Modelled from the spec: \<^verbatim>\<open>Joi.string()\<close>, with \<^verbatim>\<open>.required()\<close> when \<open>required\<close> holds, on
  the key named \<open>key\<close>.
\<close>

definition joi_string :: "string \<Rightarrow> bool \<Rightarrow> jsval \<Rightarrow> string option" where
  "joi_string key required v =
     (case v of
        JUndefined \<Rightarrow> (if required then Some (key @ '' is required'') else None)
      | JStr s \<Rightarrow> (if s = [] then Some (key @ '' is not allowed to be empty'') else None)
      | _ \<Rightarrow> Some (key @ '' must be a string''))"

text \<open>Modelled from the spec: \<^verbatim>\<open>Joi.number()\<close>, with \<^verbatim>\<open>.required()\<close> when \<open>required\<close> holds.\<close>

definition joi_number :: "string \<Rightarrow> bool \<Rightarrow> jsval \<Rightarrow> string option" where
  "joi_number key required v =
     (case v of
        JUndefined \<Rightarrow> (if required then Some (key @ '' is required'') else None)
      | JNum n \<Rightarrow> None
      | JStr s \<Rightarrow> (if numeric_string s then None else Some (key @ '' must be a number''))
      | _ \<Rightarrow> Some (key @ '' must be a number''))"

text \<open>
  Modelled from the spec: \<^verbatim>\<open>Joi.string().alphanum().length(32)\<close>, the schema of a key that
  is not required; the tests run in the order they are chained.
\<close>

definition joi_string_alphanum_length_32 :: "string \<Rightarrow> jsval \<Rightarrow> string option" where
  "joi_string_alphanum_length_32 key v =
     (case joi_string key False v of
        Some m \<Rightarrow> Some m
      | None \<Rightarrow>
          (case v of
             JStr s \<Rightarrow>
               (if \<not> alphanum s then Some (key @ '' must only contain alpha-numeric characters'')
                else if length s \<noteq> 32 then Some (key @ '' length must be 32 characters long'')
                else None)
           | _ \<Rightarrow> None))"

text \<open>
  Modelled from the spec: \<^verbatim>\<open>Joi.string().optional()\<close> on a key of an object, the key given
  as \<open>string option\<close> (\<open>None\<close>: the key is absent).
\<close>

definition joi_string_key :: "string \<Rightarrow> string option \<Rightarrow> string option" where
  "joi_string_key key v =
     (case v of
        None \<Rightarrow> None
      | Some s \<Rightarrow> (if s = [] then Some (key @ '' is not allowed to be empty'') else None))"

text \<open>
  Modelled from the spec: the keys of a schema are validated in order and the first
  violation is the one reported (\<^verbatim>\<open>validationResult.error.details[0]\<close>).
\<close>

fun first_error :: "string option list \<Rightarrow> string option" where
  "first_error [] = None"
| "first_error (None # es) = first_error es"
| "first_error (Some m # es) = Some m"

section \<open>The store\<close>

text \<open>
  Modelled from the spec: the repository capability (the module \<^verbatim>\<open>lrs-core/db\<close> and its
  Sequelize models \<^verbatim>\<open>DB.Tenant\<close>, \<^verbatim>\<open>DB.User\<close>, \<^verbatim>\<open>DB.Course\<close>, \<^verbatim>\<open>DB.Credential\<close> and
  \<^verbatim>\<open>DB.Opt_out\<close>), with the entities of the spec's data model and the operations
  \<^verbatim>\<open>findOrCreate(entityKind, naturalKey, defaults) -> (entity, wasCreated)\<close>,
  \<^verbatim>\<open>findOne(entityKind, filter, includes) -> entity|absent\<close>, \<^verbatim>\<open>findAll\<close> and
  \<^verbatim>\<open>destroy(entityKind, filter) -> rowsAffected\<close>. A table is the list of its rows. A store
  call can fail with a message (\<open>failure\<close>, per operation), and the store records the
  calls it receives (\<open>calls\<close>), so that "no store access" can be stated.
\<close>

record tenant_row =
  tenant_row_id :: int
  tenant_api_domain :: string
  lti_key :: string

record user_row =
  user_row_id :: int
  external_id :: string
  user_tenant_id :: int
  name :: "string option"

record course_row =
  course_row_id :: int
  canvas_course_id :: int
  course_tenant_id :: int
  course_name :: "string option"
  privacydashboard_url :: "string option"

record credential_row =
  credential_row_id :: int
  credential_name :: string
  description :: string
  anonymous :: bool
  datashare :: bool
  credential_tenant_id :: "int option"

record opt_out_row =
  user_id :: int
  credential_id :: int

datatype store_op =
    User_findOne | User_findOrCreate
  | Course_findOrCreate | Course_update | Course_findByPk
  | Tenant_findOne
  | Credential_findAll
  | Opt_out_findOrCreate | Opt_out_destroy

record store =
  tenants :: "tenant_row list"
  users :: "user_row list"
  courses :: "course_row list"
  credentials :: "credential_row list"
  opt_outs :: "opt_out_row list"
  failure :: "store_op \<Rightarrow> string option"
  calls :: "store_op list"

text \<open>Modelled from the spec: the store takes note of a call it receives.\<close>

definition store_call :: "store_op \<Rightarrow> store \<Rightarrow> store" where
  "store_call op s = s\<lparr>calls := calls s @ [op]\<rparr>"

text \<open>
  Modelled from the spec: the id of a new row, a serial primary key, is one more than
  the largest id of the table.
\<close>

definition fresh_id :: "int list \<Rightarrow> int" where
  "fresh_id ids = fold max ids 0 + 1"

text \<open>
  Modelled from the spec: \<^verbatim>\<open>DB.User.findOne\<close> with the filter
  \<^verbatim>\<open>{external_id, tenant_id}\<close> and the tenant of the user included.
\<close>

definition db_User_findOne ::
  "string \<Rightarrow> int \<Rightarrow> store \<Rightarrow> (string + (user_row \<times> tenant_row option) option) \<times> store"
where
  "db_User_findOne externalId tenantId s =
     (case failure s User_findOne of
        Some m \<Rightarrow> (Inl m, store_call User_findOne s)
      | None \<Rightarrow>
          (Inr (map_option
                  (\<lambda>u. (u, find (\<lambda>t. tenant_row_id t = user_tenant_id u) (tenants s)))
                  (find (\<lambda>u. external_id u = externalId \<and> user_tenant_id u = tenantId) (users s))),
           store_call User_findOne s))"

text \<open>
  Modelled from the spec: \<^verbatim>\<open>DB.User.findOrCreate\<close> on the natural key
  \<^verbatim>\<open>{external_id, tenant_id}\<close> with the defaults \<^verbatim>\<open>{name}\<close>: the existing row and
  \<open>False\<close>, or a new row built from the key and the defaults and \<open>True\<close>.
\<close>

definition db_User_findOrCreate ::
  "string \<Rightarrow> int \<Rightarrow> string option \<Rightarrow> store \<Rightarrow> (string + user_row \<times> bool) \<times> store"
where
  "db_User_findOrCreate externalId tenantId name' s =
     (case failure s User_findOrCreate of
        Some m \<Rightarrow> (Inl m, store_call User_findOrCreate s)
      | None \<Rightarrow>
          (case find (\<lambda>u. external_id u = externalId \<and> user_tenant_id u = tenantId) (users s) of
             Some u \<Rightarrow> (Inr (u, False), store_call User_findOrCreate s)
           | None \<Rightarrow>
               (let u = \<lparr>user_row_id = fresh_id (map user_row_id (users s)),
                         external_id = externalId, user_tenant_id = tenantId, name = name'\<rparr>
                in (Inr (u, True), store_call User_findOrCreate (s\<lparr>users := users s @ [u]\<rparr>)))))"

text \<open>
  Modelled from the spec: \<^verbatim>\<open>DB.Course.findOrCreate\<close> on the natural key
  \<^verbatim>\<open>{canvas_course_id, tenant_id}\<close> with the defaults \<^verbatim>\<open>{name, privacydashboard_url}\<close>.
\<close>

definition db_Course_findOrCreate ::
  "int \<Rightarrow> int \<Rightarrow> string option \<Rightarrow> string option \<Rightarrow> store \<Rightarrow>
   (string + course_row \<times> bool) \<times> store"
where
  "db_Course_findOrCreate canvasCourseId tenantId name' url s =
     (case failure s Course_findOrCreate of
        Some m \<Rightarrow> (Inl m, store_call Course_findOrCreate s)
      | None \<Rightarrow>
          (case find (\<lambda>c. canvas_course_id c = canvasCourseId \<and> course_tenant_id c = tenantId)
                  (courses s) of
             Some c \<Rightarrow> (Inr (c, False), store_call Course_findOrCreate s)
           | None \<Rightarrow>
               (let c = \<lparr>course_row_id = fresh_id (map course_row_id (courses s)),
                         canvas_course_id = canvasCourseId, course_tenant_id = tenantId,
                         course_name = name', privacydashboard_url = url\<rparr>
                in (Inr (c, True), store_call Course_findOrCreate (s\<lparr>courses := courses s @ [c]\<rparr>)))))"

text \<open>
  Additional info for a course, \<^verbatim>\<open>{name?, privacydashboard_url?}\<close>; \<open>None\<close> is an absent
  key.
\<close>

record courseInfo =
  info_name :: "string option"
  info_privacydashboard_url :: "string option"

text \<open>
  Modelled from the spec: \<^verbatim>\<open>course.update(courseInfo)\<close> of a Sequelize instance (a course
  is "subsequently updatable"): the keys present in the info replace the fields of the
  row, which is saved under its primary key.
\<close>

definition db_Course_update ::
  "course_row \<Rightarrow> courseInfo \<Rightarrow> store \<Rightarrow> (string + course_row) \<times> store"
where
  "db_Course_update course info s =
     (case failure s Course_update of
        Some m \<Rightarrow> (Inl m, store_call Course_update s)
      | None \<Rightarrow>
          (let course' = course
                 \<lparr>course_name :=
                    (case info_name info of Some n \<Rightarrow> Some n | None \<Rightarrow> course_name course),
                  privacydashboard_url :=
                    (case info_privacydashboard_url info of
                       Some u \<Rightarrow> Some u | None \<Rightarrow> privacydashboard_url course)\<rparr>
           in (Inr course',
               store_call Course_update
                 (s\<lparr>courses :=
                      map (\<lambda>c. if course_row_id c = course_row_id course then course' else c)
                        (courses s)\<rparr>))))"

text \<open>
  Modelled from the spec: \<^verbatim>\<open>DB.Course.findByPk\<close> with the tenant of the course
  included.
\<close>

definition db_Course_findByPk ::
  "int \<Rightarrow> store \<Rightarrow> (string + (course_row \<times> tenant_row option) option) \<times> store"
where
  "db_Course_findByPk pk s =
     (case failure s Course_findByPk of
        Some m \<Rightarrow> (Inl m, store_call Course_findByPk s)
      | None \<Rightarrow>
          (Inr (map_option
                  (\<lambda>c. (c, find (\<lambda>t. tenant_row_id t = course_tenant_id c) (tenants s)))
                  (find (\<lambda>c. course_row_id c = pk) (courses s))),
           store_call Course_findByPk s))"

text \<open>
  Modelled from the spec: \<^verbatim>\<open>DB.Tenant.findOne\<close> with the filter
  \<^verbatim>\<open>{tenant_api_domain, lti_key}\<close>. The key of the filter is the value the caller
  passed; a row matches a string key equal to its own, and no row matches another value.
\<close>

definition db_Tenant_findOne ::
  "string \<Rightarrow> jsval \<Rightarrow> store \<Rightarrow> (string + tenant_row option) \<times> store"
where
  "db_Tenant_findOne apiDomain ltiKey s =
     (case failure s Tenant_findOne of
        Some m \<Rightarrow> (Inl m, store_call Tenant_findOne s)
      | None \<Rightarrow>
          (Inr (find (\<lambda>t. tenant_api_domain t = apiDomain \<and> JStr (lti_key t) = ltiKey) (tenants s)),
           store_call Tenant_findOne s))"

text \<open>
  Modelled from the spec: \<^verbatim>\<open>DB.Credential.findAll\<close> with a filter on the credentials and,
  optionally, the users of each credential included (\<^verbatim>\<open>required: false\<close>: a credential
  without such a user stays in the result, with an empty \<^verbatim>\<open>users\<close> list). Without the
  include a row has no \<^verbatim>\<open>users\<close> property (\<open>None\<close>). The association between credentials
  and users is declared in \<^verbatim>\<open>lrs-core/db\<close>; it is the parameter \<open>linked\<close>.
\<close>

definition db_Credential_findAll ::
  "(credential_row \<Rightarrow> bool) \<Rightarrow> (user_row \<Rightarrow> bool) option \<Rightarrow>
   (store \<Rightarrow> credential_row \<Rightarrow> user_row list) \<Rightarrow> store \<Rightarrow>
   (string + (credential_row \<times> user_row list option) list) \<times> store"
where
  "db_Credential_findAll where' include linked s =
     (case failure s Credential_findAll of
        Some m \<Rightarrow> (Inl m, store_call Credential_findAll s)
      | None \<Rightarrow>
          (Inr (map (\<lambda>c. (c, map_option (\<lambda>p. filter p (linked s c)) include))
                  (filter where' (credentials s))),
           store_call Credential_findAll s))"

text \<open>
  Modelled from the spec: \<^verbatim>\<open>DB.Opt_out.findOrCreate\<close> on the natural key
  \<^verbatim>\<open>{user_id, credential_id}\<close> ("idempotently create the OptOut row if absent").
\<close>

definition db_Opt_out_findOrCreate ::
  "int \<Rightarrow> int \<Rightarrow> store \<Rightarrow> (string + opt_out_row \<times> bool) \<times> store"
where
  "db_Opt_out_findOrCreate userId credentialId s =
     (case failure s Opt_out_findOrCreate of
        Some m \<Rightarrow> (Inl m, store_call Opt_out_findOrCreate s)
      | None \<Rightarrow>
          (case find (\<lambda>r. user_id r = userId \<and> credential_id r = credentialId) (opt_outs s) of
             Some r \<Rightarrow> (Inr (r, False), store_call Opt_out_findOrCreate s)
           | None \<Rightarrow>
               (let r = \<lparr>user_id = userId, credential_id = credentialId\<rparr>
                in (Inr (r, True),
                    store_call Opt_out_findOrCreate (s\<lparr>opt_outs := opt_outs s @ [r]\<rparr>)))))"

text \<open>
  Modelled from the spec: \<^verbatim>\<open>DB.Opt_out.destroy\<close> with the filter
  \<^verbatim>\<open>{user_id, credential_id}\<close> ("delete the OptOut row if present; no-op if absent"),
  yielding the number of rows deleted.
\<close>

definition db_Opt_out_destroy :: "int \<Rightarrow> int \<Rightarrow> store \<Rightarrow> (string + nat) \<times> store" where
  "db_Opt_out_destroy userId credentialId s =
     (case failure s Opt_out_destroy of
        Some m \<Rightarrow> (Inl m, store_call Opt_out_destroy s)
      | None \<Rightarrow>
          (Inr (length (filter (\<lambda>r. user_id r = userId \<and> credential_id r = credentialId)
                          (opt_outs s))),
           store_call Opt_out_destroy
             (s\<lparr>opt_outs :=
                  filter (\<lambda>r. \<not> (user_id r = userId \<and> credential_id r = credentialId))
                    (opt_outs s)\<rparr>)))"

text \<open>What an operation leaves behind: its report to the caller, the store and the log.\<close>

record 'a run =
  outcome :: "'a outcome"
  db :: store
  logs :: "log_entry list"

section \<open>Monthly totals: \<^verbatim>\<open>getTotalActivities\<close>\<close>

text \<open>
  The request context: \<^verbatim>\<open>ctx.user\<close> and \<^verbatim>\<open>ctx.auth\<close> may each be absent. The
  fields \<^verbatim>\<open>ctx.user.id\<close>, \<^verbatim>\<open>ctx.user.tenant_id\<close> and \<^verbatim>\<open>ctx.auth.tenant_id\<close> carry
  the name of their object as a prefix. In \<open>auth_tenant_id\<close>, \<open>None\<close> is an absent
  (undefined or null) tenant id.
\<close>

record ctx_user =
  ctx_user_id :: int
  ctx_user_tenant_id :: int

record ctx_auth =
  auth_tenant_id :: "int option"

record ctx =
  user :: "ctx_user option"
  auth :: "ctx_auth option"

text \<open>
  A row of the SQL result: \<^verbatim>\<open>{year, month, total}\<close>, all numbers (\<open>total'\<close> is the
  field \<^verbatim>\<open>total\<close>).
\<close>

record activity_row =
  year :: int
  month :: int
  total' :: int

text \<open>
  An element of \<^verbatim>\<open>totalActivities\<close>: \<^verbatim>\<open>{period, total, current}\<close>. The field
  \<^verbatim>\<open>total\<close> is named \<open>period_total\<close> here, to keep it apart from the field of the
  input row.
\<close>

record monthly_total =
  period :: string
  period_total :: int
  current :: bool

text \<open>
  The \<^verbatim>\<open>while\<close> loop of lines 188 to 208. The loop may run forever, so it is a
  partial function: \<open>None\<close> is "does not return". The parameter \<open>fmt\<close> is
  \<^verbatim>\<open>moment(currentYear + '-' + currentMonth + '-1', 'YYYY-M-D').format('MMMM YYYY')\<close>
  as a function of the year and the month, and \<open>now\<close> is
  \<^verbatim>\<open>moment().format('MMMM YYYY')\<close>; both belong to the moment library.
\<close>

partial_function (option) fill_months ::
  "(int \<Rightarrow> int \<Rightarrow> string) \<Rightarrow> string \<Rightarrow> activity_row list \<Rightarrow> int \<Rightarrow> int \<Rightarrow>
   int \<Rightarrow> int \<Rightarrow> monthly_total list \<Rightarrow> monthly_total list option"
where
  "fill_months fmt now results lastActivityYear lastActivityMonth
     currentYear currentMonth totalActivities =
   (if currentYear \<noteq> lastActivityYear \<or> currentMonth \<noteq> lastActivityMonth then
      (let month' = find (\<lambda>r. year r = currentYear \<and> month r = currentMonth) results;
           parsedMonth = fmt currentYear currentMonth;
           result = \<lparr>period = parsedMonth,
                     period_total = (case month' of Some r \<Rightarrow> total' r | None \<Rightarrow> 0),
                     current = (now = parsedMonth)\<rparr>
       in if currentMonth = 12
          then fill_months fmt now results lastActivityYear lastActivityMonth
                 (currentYear + 1) 1 (totalActivities @ [result])
          else fill_months fmt now results lastActivityYear lastActivityMonth
                 currentYear (currentMonth + 1) (totalActivities @ [result]))
    else Some totalActivities)"

text \<open>
  \<^verbatim>\<open>getTotalActivities(ctx, callback)\<close>. The argument \<open>query\<close> is what the SQL query
  of lines 157 to 169 yields: \<open>Inl\<close> the message of a failed query, \<open>Inr\<close> its rows,
  grouped and ordered by year and month. The result is \<open>None\<close> when the loop does
  not return, so that the callback is never invoked.
\<close>

definition getTotalActivities ::
  "(int \<Rightarrow> int \<Rightarrow> string) \<Rightarrow> string \<Rightarrow> ctx option \<Rightarrow> string + activity_row list \<Rightarrow>
   (monthly_total list outcome \<times> log_entry list) option"
where
  "getTotalActivities fmt now ctx' query =
   (if ctx' = None \<or> Option.bind ctx' user = None then
      Some (CallbackErr \<lparr>code = 500,
              msg = ''Prevented getting the total activities per month for the current user''\<rparr>,
            [(Warn, ''Prevented getting the total activities per month for the current user'')])
    else case query of
      Inl err \<Rightarrow>
        Some (CallbackErr \<lparr>code = 500, msg = err\<rparr>,
              [(Error, ''An error occurred when getting the total activities per month for a user'')])
    | Inr results \<Rightarrow>
        if length results = 0 then Some (CallbackOk [], [])
        else
          (let currentYear = year (hd results);
               currentMonth = month (hd results);
               lastActivityMonth = month (last results) + 1;
               lastActivityYear = year (last results)
           in map_option (\<lambda>totalActivities. (CallbackOk totalActivities, []))
                (fill_months fmt now results lastActivityYear lastActivityMonth
                   currentYear currentMonth [])))"

section \<open>Users: \<^verbatim>\<open>getUserByExternalId\<close> and \<^verbatim>\<open>getOrCreateUser\<close>\<close>

definition getUserByExternalId ::
  "jsval \<Rightarrow> jsval \<Rightarrow> store \<Rightarrow> (user_row \<times> tenant_row option) option run"
where
  \<open>getUserByExternalId externalId tenantId s =
     (case first_error [joi_string ''"externalId"'' True externalId,
                        joi_number ''"tenantId"'' True tenantId] of
        Some m \<Rightarrow> \<lparr>outcome = CallbackErr \<lparr>code = 400, msg = m\<rparr>, db = s, logs = []\<rparr>
      | None \<Rightarrow>
          (case db_User_findOne (string_value externalId) (number_value tenantId) s of
             (Inl err, s') \<Rightarrow>
               \<lparr>outcome = CallbackErr \<lparr>code = 500, msg = err\<rparr>, db = s',
                logs = [(Error, ''An error occurred when getting a user'')]\<rparr>
           | (Inr None, s') \<Rightarrow>
               \<lparr>outcome = CallbackOk None, db = s',
                logs = [(Warn, ''Could not find a user'')]\<rparr>
           | (Inr (Some user'), s') \<Rightarrow>
               \<lparr>outcome = CallbackOk (Some user'), db = s', logs = []\<rparr>))\<close>

text \<open>
  \<^verbatim>\<open>getOrCreateUser(externalId, tenantId, name, callback)\<close>. The name is a string or
  absent (\<open>None\<close>: null or undefined); its schema, the alternatives
  \<^verbatim>\<open>[Joi.string().optional(), Joi.allow(null)]\<close>, refuses no value, since \<^verbatim>\<open>Joi.allow(null)\<close>
  is a schema of any type.
\<close>

definition getOrCreateUser :: "jsval \<Rightarrow> jsval \<Rightarrow> string option \<Rightarrow> store \<Rightarrow> user_row run" where
  \<open>getOrCreateUser externalId tenantId name' s =
     (case first_error [joi_string ''"externalId"'' True externalId,
                        joi_number ''"tenantId"'' True tenantId] of
        Some m \<Rightarrow> \<lparr>outcome = CallbackErr \<lparr>code = 400, msg = m\<rparr>, db = s, logs = []\<rparr>
      | None \<Rightarrow>
          (case db_User_findOrCreate (string_value externalId) (number_value tenantId) name' s of
             (Inl err, s') \<Rightarrow>
               \<lparr>outcome = CallbackErr \<lparr>code = 500, msg = err\<rparr>, db = s',
                logs = [(Error, ''Failed to get or create a user'')]\<rparr>
           | (Inr (user', wasCreated), s') \<Rightarrow>
               \<lparr>outcome = CallbackOk user', db = s',
                logs = (if wasCreated then [(Info, ''Created a new user'')] else [])\<rparr>))\<close>

section \<open>Courses: \<^verbatim>\<open>getOrCreateCourse\<close> and \<^verbatim>\<open>getCourse\<close>\<close>

text \<open>
  \<^verbatim>\<open>getOrCreateCourse(canvasCourseId, canvas, courseInfo, callback)\<close>. The Canvas instance
  is a tenant (\<^verbatim>\<open>canvas.id\<close> is its id) and \<open>None\<close> is an absent argument. The schema lets
  \<^verbatim>\<open>courseInfo\<close> be absent, and line 71 then dereferences it.
\<close>

definition getOrCreateCourse ::
  "jsval \<Rightarrow> tenant_row option \<Rightarrow> courseInfo option \<Rightarrow> store \<Rightarrow> course_row run"
where
  \<open>getOrCreateCourse canvasCourseId canvas courseInfo' s =
     (case first_error
             [joi_number ''"canvasCourseId"'' True canvasCourseId,
              (case canvas of None \<Rightarrow> Some ''"canvas" is required'' | Some t \<Rightarrow> None),
              (case courseInfo' of
                 None \<Rightarrow> None
               | Some info \<Rightarrow>
                   first_error
                     [joi_string_key ''"name"'' (info_name info),
                      joi_string_key ''"privacydashboard_url"'' (info_privacydashboard_url info)])] of
        Some m \<Rightarrow> \<lparr>outcome = CallbackErr \<lparr>code = 400, msg = m\<rparr>, db = s, logs = []\<rparr>
      | None \<Rightarrow>
          (case (canvas, courseInfo') of
             (Some tenant, Some info) \<Rightarrow>
               (case db_Course_findOrCreate (number_value canvasCourseId) (tenant_row_id tenant)
                       (info_name info) (info_privacydashboard_url info) s of
                  (Inl err, s') \<Rightarrow>
                    \<lparr>outcome = CallbackErr \<lparr>code = 500, msg = err\<rparr>, db = s',
                     logs = [(Error, ''Failed to get or create a course'')]\<rparr>
                | (Inr (course, True), s') \<Rightarrow>
                    \<lparr>outcome = CallbackOk course, db = s',
                     logs = [(Info, ''Created a new course'')]\<rparr>
                | (Inr (course, False), s') \<Rightarrow>
                    (case db_Course_update course info s' of
                       (Inl err, s'') \<Rightarrow>
                         \<lparr>outcome = CallbackErr \<lparr>code = 500, msg = err\<rparr>, db = s'',
                          logs = [(Error, ''Failed to update a course'')]\<rparr>
                     | (Inr course', s'') \<Rightarrow>
                         \<lparr>outcome = CallbackOk course', db = s'', logs = []\<rparr>))
           | _ \<Rightarrow> \<lparr>outcome = Throws TypeError, db = s, logs = []\<rparr>))\<close>

definition getCourse :: "int \<Rightarrow> store \<Rightarrow> (course_row \<times> tenant_row option) run" where
  "getCourse pk s =
     (case db_Course_findByPk pk s of
        (Inl err, s') \<Rightarrow>
          \<lparr>outcome = CallbackErr \<lparr>code = 500, msg = err\<rparr>, db = s',
           logs = [(Error, ''Failed to get a course'')]\<rparr>
      | (Inr None, s') \<Rightarrow>
          \<lparr>outcome = CallbackErr \<lparr>code = 404, msg = ''Failed to retrieve the course''\<rparr>, db = s',
           logs = [(Error, ''Failed to retrieve the course'')]\<rparr>
      | (Inr (Some course), s') \<Rightarrow>
          \<lparr>outcome = CallbackOk course, db = s', logs = []\<rparr>)"

section \<open>Tenants: \<^verbatim>\<open>getTenant\<close>\<close>

definition getTenant :: "jsval \<Rightarrow> jsval \<Rightarrow> store \<Rightarrow> tenant_row run" where
  \<open>getTenant apiDomain ltiKey s =
     (case first_error [joi_string ''"apiDomain"'' True apiDomain,
                        joi_string_alphanum_length_32 ''"ltiKey"'' ltiKey] of
        Some m \<Rightarrow> \<lparr>outcome = CallbackErr \<lparr>code = 400, msg = m\<rparr>, db = s, logs = []\<rparr>
      | None \<Rightarrow>
          (case db_Tenant_findOne (string_value apiDomain) ltiKey s of
             (Inl err, s') \<Rightarrow>
               \<lparr>outcome = CallbackErr \<lparr>code = 500, msg = err\<rparr>, db = s',
                logs = [(Error, ''Failed to get a Tenant(Canvas) instance'')]\<rparr>
           | (Inr None, s') \<Rightarrow>
               \<lparr>outcome = CallbackErr \<lparr>code = 404,
                   msg = ''A Tenant(Canvas) instance with the specified api domain and consumer lti key could not be found''\<rparr>,
                db = s',
                logs = [(Warn, ''A Tenant(Canvas) instance with the specified api domain and consumer lti key could not be found'')]\<rparr>
           | (Inr (Some tenant), s') \<Rightarrow>
               \<lparr>outcome = CallbackOk tenant, db = s', logs = []\<rparr>))\<close>

section \<open>Data sharing: \<^verbatim>\<open>getDataUses\<close> and \<^verbatim>\<open>saveUserOptOut\<close>\<close>

text \<open>
  An element of the list \<^verbatim>\<open>getDataUses\<close> reports,
  \<^verbatim>\<open>{id, name, description, anonymous, share}\<close>, each field with the prefix \<open>use\<close>.
\<close>

record data_use =
  use_id :: int
  use_name :: string
  use_description :: string
  use_anonymous :: bool
  use_share :: bool

text \<open>
  The guard of line 306, \<^verbatim>\<open>!ctx || !ctx.auth.tenant_id\<close>: it throws when \<^verbatim>\<open>ctx.auth\<close> is
  absent, prevents the operation (\<open>Inr None\<close>) when \<^verbatim>\<open>ctx\<close> is absent or the tenant id is
  falsy (absent or 0), and lets it proceed with the tenant id otherwise.
\<close>

definition getDataUses_guard :: "ctx option \<Rightarrow> exn + int option" where
  "getDataUses_guard ctx' =
     (case ctx' of
        None \<Rightarrow> Inr None
      | Some c \<Rightarrow>
          (case auth c of
             None \<Rightarrow> Inl TypeError
           | Some a \<Rightarrow>
               (case auth_tenant_id a of
                  None \<Rightarrow> Inr None
                | Some tenantId \<Rightarrow> (if tenantId = 0 then Inr None else Inr (Some tenantId)))))"

definition getDataUses ::
  "(store \<Rightarrow> credential_row \<Rightarrow> user_row list) \<Rightarrow> ctx option \<Rightarrow> store \<Rightarrow> data_use list run"
where
  "getDataUses linked ctx' s =
     (case getDataUses_guard ctx' of
        Inl e \<Rightarrow> \<lparr>outcome = Throws e, db = s, logs = []\<rparr>
      | Inr None \<Rightarrow>
          \<lparr>outcome = CallbackErr \<lparr>code = 500,
              msg = ''Prevented getting the projects that have access to the current user data''\<rparr>,
           db = s,
           logs = [(Warn, ''Prevented getting the projects that have access to the current user data'')]\<rparr>
      | Inr (Some tenantId) \<Rightarrow>
          (case db_Credential_findAll
                  (\<lambda>c. (credential_tenant_id c = Some tenantId \<and> datashare c = True)
                        \<or> credential_tenant_id c = None)
                  (map_option
                     (\<lambda>u. (\<lambda>r. user_row_id r = ctx_user_id u \<and> user_tenant_id r = tenantId))
                     (Option.bind ctx' user))
                  linked s of
             (Inl err, s') \<Rightarrow>
               \<lparr>outcome = CallbackErr \<lparr>code = 500, msg = err\<rparr>, db = s',
                logs = [(Error, ''An error occurred when getting the data usage details for user'')]\<rparr>
           | (Inr dataUses, s') \<Rightarrow>
               \<lparr>outcome = CallbackOk
                   (map (\<lambda>(dataUse, users').
                           (let optedOut =
                                  (case users' of None \<Rightarrow> True | Some us \<Rightarrow> length us \<le> 0)
                            in \<lparr>use_id = credential_row_id dataUse,
                                use_name = credential_name dataUse,
                                use_description = description dataUse,
                                use_anonymous = anonymous dataUse,
                                use_share = optedOut\<rparr>))
                      dataUses),
                db = s', logs = []\<rparr>))"

text \<open>The \<^verbatim>\<open>dataUse\<close> object of a request: \<^verbatim>\<open>{id, share}\<close>.\<close>

record dataUse =
  dataUse_id :: int
  share :: jsval

text \<open>
  \<^verbatim>\<open>getOrCreateOptOutDetails(ctx, dataUse, callback)\<close>. Building the options dereferences
  \<^verbatim>\<open>ctx.user.id\<close> (line 461).
\<close>

definition getOrCreateOptOutDetails :: "ctx option \<Rightarrow> dataUse \<Rightarrow> store \<Rightarrow> opt_out_row run" where
  "getOrCreateOptOutDetails ctx' dataUse' s =
     (case Option.bind ctx' user of
        None \<Rightarrow> \<lparr>outcome = Throws TypeError, db = s, logs = []\<rparr>
      | Some u \<Rightarrow>
          (case db_Opt_out_findOrCreate (ctx_user_id u) (dataUse_id dataUse') s of
             (Inl err, s') \<Rightarrow>
               \<lparr>outcome = CallbackErr \<lparr>code = 500, msg = err\<rparr>, db = s',
                logs = [(Info, ''Get OptOut details datause input :''),
                        (Info, ''Get OptOut details datause input :''),
                        (Error, ''Failed to get or create a user opt-out for data share'')]\<rparr>
           | (Inr (userOptOutDetails, wasCreated), s') \<Rightarrow>
               \<lparr>outcome = CallbackOk userOptOutDetails, db = s',
                logs = [(Info, ''Get OptOut details datause input :''),
                        (Info, ''Get OptOut details datause input :''),
                        (Info, ''Creating/Retrieving Opt-out record in the table'')]\<rparr>))"

text \<open>
  \<^verbatim>\<open>saveUserOptOut(ctx, dataUse, callback)\<close>.

  With \<^verbatim>\<open>share === false\<close>, the callback given to \<^verbatim>\<open>getOrCreateOptOutDetails\<close> evaluates, on
  an error whose code is not 404, the argument \<^verbatim>\<open>{id: id}\<close> of \<^verbatim>\<open>log.info\<close> (line 380)
  before \<^verbatim>\<open>callback(err)\<close>; no variable \<^verbatim>\<open>id\<close> is in scope, so this throws a
  ReferenceError. On an error of code 404, or on a falsy result, it falls through
  without invoking the callback.

  With \<^verbatim>\<open>share === true\<close>, the filter of \<^verbatim>\<open>destroy\<close> dereferences \<^verbatim>\<open>ctx.user.id\<close>; the
  callback is invoked right after the call (line 406), outside the promise, whose
  handlers only log.
\<close>

definition saveUserOptOut :: "ctx option \<Rightarrow> dataUse \<Rightarrow> store \<Rightarrow> unit run" where
  "saveUserOptOut ctx' dataUse' s =
     (if share dataUse' = JBool False then
        (let r = getOrCreateOptOutDetails ctx' dataUse' s
         in case outcome r of
              CallbackErr err \<Rightarrow>
                (if code err \<noteq> 404
                 then \<lparr>outcome = Throws ReferenceError, db = db r,
                       logs = (Info, ''Sample datause input :'') # logs r\<rparr>
                 else \<lparr>outcome = NeverCalled, db = db r,
                       logs = (Info, ''Sample datause input :'') # logs r\<rparr>)
            | CallbackOk results \<Rightarrow>
                \<lparr>outcome = CallbackOk (), db = db r,
                 logs = (Info, ''Sample datause input :'') # logs r @
                   [(Info, ''The user %d has opt-out of data share for the project %d. Opt-out successful !'')]\<rparr>
            | Throws e \<Rightarrow>
                \<lparr>outcome = Throws e, db = db r,
                 logs = (Info, ''Sample datause input :'') # logs r\<rparr>
            | NeverCalled \<Rightarrow>
                \<lparr>outcome = NeverCalled, db = db r,
                 logs = (Info, ''Sample datause input :'') # logs r\<rparr>)
      else if share dataUse' = JBool True then
        (case Option.bind ctx' user of
           None \<Rightarrow>
             \<lparr>outcome = Throws TypeError, db = s, logs = [(Info, ''Sample datause input :'')]\<rparr>
         | Some u \<Rightarrow>
             (case db_Opt_out_destroy (ctx_user_id u) (dataUse_id dataUse') s of
                (Inl err, s') \<Rightarrow>
                  \<lparr>outcome = CallbackOk (), db = s',
                   logs = [(Info, ''Sample datause input :''), (Error, err)]\<rparr>
              | (Inr rowDeleted, s') \<Rightarrow>
                  \<lparr>outcome = CallbackOk (), db = s',
                   logs = (Info, ''Sample datause input :'') #
                     (if rowDeleted = 1
                      then [(Info, ''The user %d has chosen to Opt-in for data share for project %d. Opt-in successful !'')]
                      else [])\<rparr>))
      else
        \<lparr>outcome = CallbackOk (), db = s,
         logs = [(Info, ''Sample datause input :''),
                 (Info, ''The datause object has a wrong share value. Share has to be of type Boolean.'')]\<rparr>)"

section \<open>Calendar months\<close>

text \<open>
  The words of the claims about the monthly series: the calendar months from one
  (year, month) to another, both included, in chronological order. Months are counted
  from year 0, twelve to a year.
\<close>

definition month_index :: "int \<Rightarrow> int \<Rightarrow> int" where
  "month_index y m = 12 * y + (m - 1)"

definition months_between :: "int \<times> int \<Rightarrow> int \<times> int \<Rightarrow> (int \<times> int) list" where
  "months_between a b =
     map (\<lambda>k. (k div 12, k mod 12 + 1)) [month_index (fst a) (snd a) .. month_index (fst b) (snd b)]"

text \<open>
  The element the loop body (lines 190 to 198) pushes for the month \<open>ym\<close>.
\<close>

definition monthly_entry ::
  "(int \<Rightarrow> int \<Rightarrow> string) \<Rightarrow> string \<Rightarrow> activity_row list \<Rightarrow> int \<times> int \<Rightarrow> monthly_total" where
  "monthly_entry fmt now results ym =
     \<lparr>period = fmt (fst ym) (snd ym),
      period_total = (case find (\<lambda>r. year r = fst ym \<and> month r = snd ym) results of
                        Some r \<Rightarrow> total' r | None \<Rightarrow> 0),
      current = (now = fmt (fst ym) (snd ym))\<rparr>"

section \<open>Concrete scenarios\<close>

text \<open>
  A request context with a user and a tenant, and a store with one tenant, one user,
  three credentials (one of the tenant with data sharing on, one of no tenant, one of
  another tenant with data sharing off) and one opt-out row.
\<close>

definition example_ctx :: ctx where
  "example_ctx = \<lparr>user = Some \<lparr>ctx_user_id = 1, ctx_user_tenant_id = 1\<rparr>,
                   auth = Some \<lparr>auth_tenant_id = Some 1\<rparr>\<rparr>"

definition example_store :: store where
  "example_store =
     \<lparr>tenants = [\<lparr>tenant_row_id = 1, tenant_api_domain = ''lrs.example.edu'',
                   lti_key = ''0123456789abcdef0123456789ABCDEF''\<rparr>],
      users = [\<lparr>user_row_id = 1, external_id = ''u1'', user_tenant_id = 1, name = Some ''Ann''\<rparr>],
      courses = [],
      credentials =
        [\<lparr>credential_row_id = 1, credential_name = ''Dashboard'', description = ''Course dashboard'',
          anonymous = False, datashare = True, credential_tenant_id = Some 1\<rparr>,
         \<lparr>credential_row_id = 2, credential_name = ''Research'', description = ''Campus research'',
          anonymous = True, datashare = False, credential_tenant_id = None\<rparr>,
         \<lparr>credential_row_id = 3, credential_name = ''Other'', description = ''Other campus'',
          anonymous = False, datashare = False, credential_tenant_id = Some 2\<rparr>],
      opt_outs = [\<lparr>user_id = 1, credential_id = 1\<rparr>],
      failure = (\<lambda>op. None),
      calls = []\<rparr>"

text \<open>The example store with one operation failing with a given message.\<close>

definition failing_store :: "store_op \<Rightarrow> string \<Rightarrow> store" where
  "failing_store op m = example_store\<lparr>failure := (\<lambda>op'. if op' = op then Some m else None)\<rparr>"

section \<open>The monthly series\<close>

subsection \<open>The loop does not return when the last month is December\<close>

text \<open>
  The bound of the loop is \<^verbatim>\<open>lastActivityMonth = month + 1\<close> of the last row (line 185),
  13 for December, while the counter \<^verbatim>\<open>currentMonth\<close> goes from 12 to 1 (lines 201 to
  203): a counter that is not 13 never becomes 13, so the loop has no result.
\<close>

lemma fill_months_no_13:
  assumes "fill_months fmt now results ly lm cy cm acc = Some out"
  shows "\<not> (lm = 13 \<and> cm \<noteq> 13)"
proof (rule fill_months.raw_induct[where P = "\<lambda>fmt now results ly lm cy cm acc out. \<not> (lm = 13 \<and> cm \<noteq> 13)", OF _ assms])
  fix f :: "(int \<Rightarrow> int \<Rightarrow> string) \<Rightarrow> string \<Rightarrow> activity_row list \<Rightarrow> int \<Rightarrow> int \<Rightarrow>
   int \<Rightarrow> int \<Rightarrow> monthly_total list \<Rightarrow> monthly_total list option"
  fix fmt now results ly lm cy cm acc out
  assume IH: "\<And>fmt now results ly lm cy cm acc out. f fmt now results ly lm cy cm acc = Some out \<Longrightarrow> \<not> (lm = 13 \<and> cm \<noteq> 13)"
  assume step: "(if cy \<noteq> ly \<or> cm \<noteq> lm then
      (let month' = find (\<lambda>r. year r = cy \<and> month r = cm) results;
           parsedMonth = fmt cy cm;
           result = \<lparr>period = parsedMonth,
                     period_total = (case month' of Some r \<Rightarrow> total' r | None \<Rightarrow> 0),
                     current = (now = parsedMonth)\<rparr>
       in if cm = 12
          then f fmt now results ly lm (cy + 1) 1 (acc @ [result])
          else f fmt now results ly lm cy (cm + 1) (acc @ [result]))
    else Some acc) = Some out"
  show "\<not> (lm = 13 \<and> cm \<noteq> 13)"
  proof
    assume a: "lm = 13 \<and> cm \<noteq> 13"
    show False
    proof (cases "cm = 12")
      case True
      with a step obtain acc' where "f fmt now results ly lm (cy + 1) 1 acc' = Some out"
        by (simp add: Let_def)
      from IH[OF this] a show False by simp
    next
      case False
      with a step obtain acc' where "f fmt now results ly lm cy (cm + 1) acc' = Some out"
        by (simp add: Let_def)
      from IH[OF this] a False show False by simp
    qed
  qed
qed

lemma fill_months_december:
  assumes "cm \<noteq> 13"
  shows "fill_months fmt now results ly 13 cy cm acc = None"
proof (cases "fill_months fmt now results ly 13 cy cm acc")
  case None
  then show ?thesis .
next
  case (Some out)
  from fill_months_no_13 [OF this] assms show ?thesis by simp
qed

subsection \<open>The series for a last month other than December\<close>

text \<open>
  For rows with months from 1 to 12, in strictly increasing order of (year, month),
  whose last month is not December, the loop returns, and the series is one element
  for each calendar month from the first row's to the last row's, in order.
\<close>

lemma month_index_inj:
  assumes "1 \<le> m" and "m \<le> 12" and "1 \<le> m'" and "m' \<le> 12"
    and "month_index y m = month_index y' m'"
  shows "y = y' \<and> m = m'"
proof -
  from assms(5) have "(12 * y + (m - 1)) div 12 = (12 * y' + (m' - 1)) div 12"
    unfolding month_index_def by (rule arg_cong)
  with assms(1-4) have "y = y'" by simp
  with assms(5) show ?thesis by (simp add: month_index_def)
qed

lemma fill_months_range:
  assumes "1 \<le> cm" and "cm \<le> 12" and "1 \<le> lm" and "lm \<le> 12"
    and "month_index cy cm \<le> month_index ly lm"
  shows "fill_months fmt now results ly lm cy cm acc
         = Some (acc @ map (\<lambda>k. monthly_entry fmt now results (k div 12, k mod 12 + 1))
                         [month_index cy cm .. month_index ly lm - 1])"
  using assms
proof (induction "nat (month_index ly lm - month_index cy cm)" arbitrary: cy cm acc)
  case 0
  then have "month_index cy cm = month_index ly lm" by simp
  from month_index_inj [OF "0.prems"(1,2,3,4) this] have eq: "cy = ly" "cm = lm" by simp_all
  have "[month_index cy cm .. month_index ly lm - 1] = []"
    by (simp add: eq)
  then show ?case
    by (subst fill_months.simps) (simp add: eq)
next
  case (Suc d)
  then have lt: "month_index cy cm < month_index ly lm" by simp
  then have ne: "cy \<noteq> ly \<or> cm \<noteq> lm" by (auto simp: month_index_def)
  have here: "(month_index cy cm div 12, month_index cy cm mod 12 + 1) = (cy, cm)"
    using Suc.prems(1,2) by (simp add: month_index_def)
  have range: "[month_index cy cm .. month_index ly lm - 1]
               = month_index cy cm # [month_index cy cm + 1 .. month_index ly lm - 1]"
    using lt by (simp add: upto_rec1)
  show ?case
  proof (cases "cm = 12")
    case True
    have next_index: "month_index (cy + 1) 1 = month_index cy cm + 1"
      by (simp add: month_index_def True)
    have d: "d = nat (month_index ly lm - month_index (cy + 1) 1)"
      using Suc.hyps(2) by (simp add: next_index)
    have le: "month_index (cy + 1) 1 \<le> month_index ly lm"
      using lt by (simp add: next_index)
    have step: "fill_months fmt now results ly lm cy cm acc
                = fill_months fmt now results ly lm (cy + 1) 1
                    (acc @ [monthly_entry fmt now results (cy, cm)])"
      using ne True by (subst fill_months.simps) (simp add: Let_def monthly_entry_def)
    show ?thesis
      unfolding step
      by (simp add: Suc.hyps(1) [OF d _ _ Suc.prems(3,4) le] range here next_index)
  next
    case False
    have next_index: "month_index cy (cm + 1) = month_index cy cm + 1"
      by (simp add: month_index_def)
    have d: "d = nat (month_index ly lm - month_index cy (cm + 1))"
      using Suc.hyps(2) by (simp add: next_index)
    have le: "month_index cy (cm + 1) \<le> month_index ly lm"
      using lt by (simp add: next_index)
    have bounds: "1 \<le> cm + 1" "cm + 1 \<le> 12"
      using Suc.prems(1,2) False by simp_all
    have step: "fill_months fmt now results ly lm cy cm acc
                = fill_months fmt now results ly lm cy (cm + 1)
                    (acc @ [monthly_entry fmt now results (cy, cm)])"
      using ne False by (subst fill_months.simps) (simp add: Let_def monthly_entry_def)
    show ?thesis
      unfolding step
      by (simp add: Suc.hyps(1) [OF d bounds Suc.prems(3,4) le] range here next_index)
  qed
qed


lemma sorted_first_last:
  assumes "sorted_wrt R (x # xs)"
  shows "last (x # xs) = x \<or> R x (last (x # xs))"
proof (cases xs)
  case Nil
  then show ?thesis by simp
next
  case (Cons y ys)
  then have "last (x # xs) \<in> set xs" by simp
  with assms show ?thesis by auto
qed

lemma getTotalActivities_series:
  assumes nonempty: "results \<noteq> []"
    and ctx: "Option.bind ctx' user = Some u"
    and months: "\<forall>r \<in> set results. 1 \<le> month r \<and> month r \<le> 12"
    and increasing:
      "sorted_wrt (\<lambda>a b. year a < year b \<or> (year a = year b \<and> month a < month b)) results"
    and not_december: "month (last results) \<noteq> 12"
  shows "getTotalActivities fmt now ctx' (Inr results)
         = Some (CallbackOk
                   (map (monthly_entry fmt now results)
                      (months_between (year (hd results), month (hd results))
                                      (year (last results), month (last results)))),
                 [])"
proof -
  from nonempty obtain x xs where results: "results = x # xs"
    by (cases results) auto
  have first: "hd results = x" by (simp add: results)
  have x: "1 \<le> month x" "month x \<le> 12"
    using months by (simp_all add: results)
  have "last results \<in> set results" using nonempty by simp
  with months not_december
  have l: "1 \<le> month (last results) + 1" "month (last results) + 1 \<le> 12"
    by auto
  from sorted_first_last [OF increasing [unfolded results]] x l
  have "month_index (year x) (month x) \<le> month_index (year (last results)) (month (last results))"
    unfolding results month_index_def by auto
  then have le: "month_index (year x) (month x)
                 \<le> month_index (year (last results)) (month (last results) + 1)"
    by (simp add: month_index_def)
  have upper: "month_index (year (last results)) (month (last results) + 1) - 1
               = month_index (year (last results)) (month (last results))"
    by (simp add: month_index_def)
  from ctx have c: "ctx' \<noteq> None" "Option.bind ctx' user \<noteq> None"
    by (cases ctx'; simp)+
  show ?thesis
    using c nonempty
    by (simp add: getTotalActivities_def Let_def first
          fill_months_range [OF x l le] upper months_between_def comp_def)
qed

lemma months_between_length:
  "length (months_between a b)
   = nat (month_index (fst b) (snd b) - month_index (fst a) (snd a) + 1)"
  by (simp add: months_between_def)

lemma monthly_entry_absent:
  assumes "\<forall>r \<in> set results. \<not> (year r = y \<and> month r = m)"
  shows "period_total (monthly_entry fmt now results (y, m)) = 0"
proof -
  from assms have "find (\<lambda>r. year r = y \<and> month r = m) results = None"
    by (simp add: find_None_iff)
  then show ?thesis by (simp add: monthly_entry_def)
qed

text \<open>
  In rows in strictly increasing order of (year, month), the row of a month is the one
  the loop finds for it.
\<close>

lemma find_strictly_increasing:
  assumes "sorted_wrt (\<lambda>a b. year a < year b \<or> (year a = year b \<and> month a < month b)) results"
    and "r \<in> set results"
  shows "find (\<lambda>x. year x = year r \<and> month x = month r) results = Some r"
  using assms
proof (induction results)
  case Nil
  then show ?case by simp
next
  case (Cons x xs)
  show ?case
  proof (cases "year x = year r \<and> month x = month r")
    case True
    have "r = x"
    proof (rule ccontr)
      assume "r \<noteq> x"
      with Cons.prems(2) have "r \<in> set xs" by simp
      with Cons.prems(1) have "year x < year r \<or> (year x = year r \<and> month x < month r)"
        by simp
      with True show False by simp
    qed
    then show ?thesis by simp
  next
    case False
    then have "r \<noteq> x" by auto
    with Cons.prems(2) have "r \<in> set xs" by simp
    with Cons.IH Cons.prems(1) have "find (\<lambda>x. year x = year r \<and> month x = month r) xs = Some r"
      by simp
    with False show ?thesis by auto
  qed
qed

lemma monthly_entry_present:
  assumes "sorted_wrt (\<lambda>a b. year a < year b \<or> (year a = year b \<and> month a < month b)) results"
    and "r \<in> set results"
  shows "period_total (monthly_entry fmt now results (year r, month r)) = total' r"
  by (simp add: monthly_entry_def find_strictly_increasing [OF assms])

text \<open>The calendar months of a range are in strictly increasing order, hence distinct.\<close>

lemma months_between_increasing:
  "sorted_wrt (\<lambda>a b. fst a < fst b \<or> (fst a = fst b \<and> snd a < snd b)) (months_between a b)"
proof -
  have step: "k div 12 < k' div 12 \<or> (k div 12 = k' div 12 \<and> k mod 12 + 1 < k' mod 12 + 1)"
    if "k < k'" for k k' :: int
  proof (cases "k div 12 = k' div 12")
    case True
    have "k = 12 * (k div 12) + k mod 12" "k' = 12 * (k' div 12) + k' mod 12"
      by simp_all
    with that True have "k mod 12 < k' mod 12" by linarith
    with True show ?thesis by simp
  next
    case False
    from that have "k div 12 \<le> k' div 12" by (simp add: zdiv_mono1)
    with False show ?thesis by simp
  qed
  have "sorted_wrt (<) [i..j]" for i j :: int
    by (simp add: strict_sorted_iff)
  then have "sorted_wrt (\<lambda>k k'. k div 12 < k' div 12 \<or> (k div 12 = k' div 12 \<and> k mod 12 + 1 < k' mod 12 + 1)) [i..j]"
    for i j :: int
    by (rule sorted_wrt_mono_rel [rotated]) (rule step)
  then show ?thesis
    by (simp add: months_between_def sorted_wrt_map)
qed

text \<open>
  The example of the spec: rows for November 2023 and February 2024 give the four
  months from November 2023 to February 2024, with totals 5, 0, 0 and 3.
\<close>

lemma getTotalActivities_example:
  "getTotalActivities fmt now (Some example_ctx)
     (Inr [\<lparr>year = 2023, month = 11, total' = 5\<rparr>, \<lparr>year = 2024, month = 2, total' = 3\<rparr>])
   = Some (CallbackOk
            [\<lparr>period = fmt 2023 11, period_total = 5, current = (now = fmt 2023 11)\<rparr>,
             \<lparr>period = fmt 2023 12, period_total = 0, current = (now = fmt 2023 12)\<rparr>,
             \<lparr>period = fmt 2024 1, period_total = 0, current = (now = fmt 2024 1)\<rparr>,
             \<lparr>period = fmt 2024 2, period_total = 3, current = (now = fmt 2024 2)\<rparr>], [])"
  by (simp add: getTotalActivities_def Let_def example_ctx_def fill_months.simps)

text \<open>
  Claim C2. For every non-empty sequence of rows in strictly increasing order of
  (year, month), the month-filling loop of \<^verbatim>\<open>getTotalActivities\<close> terminates, also when
  the last row's month is December. The code does not normalise the bound: whenever
  the last row's month is 12 (and the first row's month is not 13, as for every month
  the SQL query extracts), \<^verbatim>\<open>getTotalActivities\<close> does not return.
\<close>

theorem fill_months_december_diverges:
  assumes "results \<noteq> []" and "Option.bind ctx' user = Some u"
    and "month (last results) = 12" and "month (hd results) \<noteq> 13"
  shows "getTotalActivities fmt now ctx' (Inr results) = None"
proof -
  from assms(2) have c: "ctx' \<noteq> None" "Option.bind ctx' user \<noteq> None"
    by (cases ctx'; simp)+
  show ?thesis
    using c assms(1,3)
    by (simp add: getTotalActivities_def Let_def fill_months_december [OF assms(4)])
qed

theorem fill_months_december_diverges_witness:
  "getTotalActivities (\<lambda>y m. []) [] (Some example_ctx)
     (Inr [\<lparr>year = 2023, month = 12, total' = 5\<rparr>]) = None"
  using fill_months_december_diverges
          [of "[\<lparr>year = 2023, month = 12, total' = 5\<rparr>]" "Some example_ctx"
              "\<lparr>ctx_user_id = 1, ctx_user_tenant_id = 1\<rparr>" "\<lambda>y m. []" "[]"]
  by (simp add: example_ctx_def)

text \<open>
  Claim C1. For every non-empty sequence of rows in strictly increasing order of
  (year, month), \<^verbatim>\<open>getTotalActivities\<close> returns the series of the calendar months from
  the first row's to the last row's. On the rows of November and December 2023, in
  that order, two calendar months, it returns no series: it does not return.
\<close>

theorem getTotalActivities_december_no_series:
  "getTotalActivities fmt now (Some example_ctx)
     (Inr [\<lparr>year = 2023, month = 11, total' = 5\<rparr>, \<lparr>year = 2023, month = 12, total' = 3\<rparr>]) = None"
  by (simp add: getTotalActivities_def Let_def example_ctx_def fill_months_december)

theorem getTotalActivities_december_no_series_witness:
  "getTotalActivities (\<lambda>y m. []) [] (Some example_ctx)
     (Inr [\<lparr>year = 2023, month = 11, total' = 5\<rparr>, \<lparr>year = 2023, month = 12, total' = 3\<rparr>])
   \<noteq> Some (CallbackOk
             [\<lparr>period = [], period_total = 5, current = True\<rparr>,
              \<lparr>period = [], period_total = 3, current = True\<rparr>], [])"
  using getTotalActivities_december_no_series [of "\<lambda>y m. []" "[]"]
  by simp

section \<open>Finding or creating a course or a user, twice\<close>

text \<open>A fresh id is larger than every id of the table.\<close>

lemma fold_max_bounds:
  fixes a :: int
  shows "a \<le> fold max xs a \<and> (\<forall>x \<in> set xs. x \<le> fold max xs a)"
proof (induction xs arbitrary: a)
  case Nil
  show ?case by simp
next
  case (Cons y ys)
  from Cons.IH [of "max y a"] show ?case by auto
qed

lemma fresh_id_greater: "x \<in> set ids \<Longrightarrow> x < fresh_id ids"
  using fold_max_bounds [of 0 ids] by (auto simp: fresh_id_def)

lemma find_snoc:
  "find P (xs @ [x]) = (case find P xs of Some y \<Rightarrow> Some y | None \<Rightarrow> if P x then Some x else None)"
  by (induction xs) auto

lemma getOrCreateCourse_twice:
  assumes ok: "failure s Course_findOrCreate = None" "failure s Course_update = None"
    and valid: "info_name info1 \<noteq> Some []" "info_privacydashboard_url info1 \<noteq> Some []"
      "info_name info2 \<noteq> Some []" "info_privacydashboard_url info2 \<noteq> Some []"
    and new: "\<forall>c \<in> set (courses s). \<not> (canvas_course_id c = n \<and> course_tenant_id c = tenant_row_id t)"
  shows "\<exists>c1 s1 c2 s2.
           getOrCreateCourse (JNum n) (Some t) (Some info1) s
             = \<lparr>outcome = CallbackOk c1, db = s1, logs = [(Info, ''Created a new course'')]\<rparr>
         \<and> c1 \<in> set (courses s1)
         \<and> canvas_course_id c1 = n \<and> course_tenant_id c1 = tenant_row_id t
         \<and> course_name c1 = info_name info1
         \<and> privacydashboard_url c1 = info_privacydashboard_url info1
         \<and> getOrCreateCourse (JNum n) (Some t) (Some info2) s1
             = \<lparr>outcome = CallbackOk c2, db = s2, logs = []\<rparr>
         \<and> c2 = c1\<lparr>course_name :=
                      (case info_name info2 of Some x \<Rightarrow> Some x | None \<Rightarrow> course_name c1),
                    privacydashboard_url :=
                      (case info_privacydashboard_url info2 of
                         Some x \<Rightarrow> Some x | None \<Rightarrow> privacydashboard_url c1)\<rparr>
         \<and> filter (\<lambda>c. canvas_course_id c = n \<and> course_tenant_id c = tenant_row_id t) (courses s2) = [c2]
         \<and> length (courses s2) = length (courses s) + 1"
proof -
  let ?key = "\<lambda>c. canvas_course_id c = n \<and> course_tenant_id c = tenant_row_id t"
  define c1 where "c1 = \<lparr>course_row_id = fresh_id (map course_row_id (courses s)),
                         canvas_course_id = n, course_tenant_id = tenant_row_id t,
                         course_name = info_name info1,
                         privacydashboard_url = info_privacydashboard_url info1\<rparr>"
  define s1 where "s1 = store_call Course_findOrCreate (s\<lparr>courses := courses s @ [c1]\<rparr>)"
  define c2 where "c2 = c1\<lparr>course_name :=
                      (case info_name info2 of Some x \<Rightarrow> Some x | None \<Rightarrow> course_name c1),
                    privacydashboard_url :=
                      (case info_privacydashboard_url info2 of
                         Some x \<Rightarrow> Some x | None \<Rightarrow> privacydashboard_url c1)\<rparr>"
  define s2 where "s2 = store_call Course_update
                 (store_call Course_findOrCreate s1\<lparr>courses := courses s @ [c2]\<rparr>)"
  from new have none: "find ?key (courses s) = None"
    by (simp add: find_None_iff)
  have v1: "joi_string_key k (info_name info1) = None"
           "joi_string_key k (info_privacydashboard_url info1) = None"
           "joi_string_key k (info_name info2) = None"
           "joi_string_key k (info_privacydashboard_url info2) = None" for k
    using valid by (auto simp: joi_string_key_def split: option.splits)
  have first: "getOrCreateCourse (JNum n) (Some t) (Some info1) s
             = \<lparr>outcome = CallbackOk c1, db = s1, logs = [(Info, ''Created a new course'')]\<rparr>"
    using ok none
    by (simp add: getOrCreateCourse_def v1 joi_number_def number_value_def
          db_Course_findOrCreate_def c1_def s1_def Let_def)
  have key1: "?key c1" by (simp add: c1_def)
  have found: "find ?key (courses s1) = Some c1"
    using none key1 by (simp add: s1_def store_call_def find_snoc)
  have ids: "\<forall>c \<in> set (courses s). course_row_id c \<noteq> course_row_id c1"
  proof
    fix c assume "c \<in> set (courses s)"
    then have "course_row_id c \<in> set (map course_row_id (courses s))" by simp
    from fresh_id_greater [OF this] show "course_row_id c \<noteq> course_row_id c1"
      by (simp add: c1_def)
  qed
  then have upd: "map (\<lambda>c. if course_row_id c = course_row_id c1 then c2 else c) (courses s) = courses s"
    by (simp add: map_idI)
  have fail1: "failure s1 = failure s"
    by (simp add: s1_def store_call_def)
  have second: "getOrCreateCourse (JNum n) (Some t) (Some info2) s1
             = \<lparr>outcome = CallbackOk c2, db = s2, logs = []\<rparr>"
    using ok found upd
    by (simp add: getOrCreateCourse_def v1 joi_number_def number_value_def fail1
          db_Course_findOrCreate_def db_Course_update_def Let_def store_call_def
          s2_def c2_def [symmetric])
       (simp add: s1_def store_call_def)
  have key2: "?key c2" using key1 by (simp add: c2_def)
  from new have "filter ?key (courses s) = []"
    by (simp add: filter_empty_conv)
  with key2 have one: "filter ?key (courses s2) = [c2]"
    by (simp add: s2_def store_call_def)
  have len: "length (courses s2) = length (courses s) + 1"
    by (simp add: s2_def store_call_def)
  have mem: "c1 \<in> set (courses s1)" by (simp add: s1_def store_call_def)
  have fields: "canvas_course_id c1 = n \<and> course_tenant_id c1 = tenant_row_id t
         \<and> course_name c1 = info_name info1
         \<and> privacydashboard_url c1 = info_privacydashboard_url info1"
    by (simp add: c1_def)
  from first mem fields second c2_def one len show ?thesis by blast
qed


lemma getOrCreateUser_twice:
  assumes ok: "failure s User_findOrCreate = None"
    and valid: "e \<noteq> []"
    and new: "\<forall>u \<in> set (users s). \<not> (external_id u = e \<and> user_tenant_id u = tid)"
  shows "\<exists>u1 s1 s2.
           getOrCreateUser (JStr e) (JNum tid) name1 s
             = \<lparr>outcome = CallbackOk u1, db = s1, logs = [(Info, ''Created a new user'')]\<rparr>
         \<and> u1 \<in> set (users s1)
         \<and> external_id u1 = e \<and> user_tenant_id u1 = tid \<and> name u1 = name1
         \<and> getOrCreateUser (JStr e) (JNum tid) name2 s1
             = \<lparr>outcome = CallbackOk u1, db = s2, logs = []\<rparr>
         \<and> users s2 = users s1
         \<and> filter (\<lambda>u. external_id u = e \<and> user_tenant_id u = tid) (users s2) = [u1]
         \<and> length (users s2) = length (users s) + 1"
proof -
  let ?key = "\<lambda>u. external_id u = e \<and> user_tenant_id u = tid"
  define u1 where "u1 = \<lparr>user_row_id = fresh_id (map user_row_id (users s)),
                         external_id = e, user_tenant_id = tid, name = name1\<rparr>"
  define s1 where "s1 = store_call User_findOrCreate (s\<lparr>users := users s @ [u1]\<rparr>)"
  define s2 where "s2 = store_call User_findOrCreate s1"
  from new have none: "find ?key (users s) = None"
    by (simp add: find_None_iff)
  have first: "getOrCreateUser (JStr e) (JNum tid) name1 s
             = \<lparr>outcome = CallbackOk u1, db = s1, logs = [(Info, ''Created a new user'')]\<rparr>"
    using ok valid none
    by (simp add: getOrCreateUser_def joi_string_def joi_number_def string_value_def
          number_value_def db_User_findOrCreate_def u1_def s1_def Let_def)
  have key1: "?key u1" by (simp add: u1_def)
  have found: "find ?key (users s1) = Some u1"
    using none key1 by (simp add: s1_def store_call_def find_snoc)
  have fail1: "failure s1 = failure s"
    by (simp add: s1_def store_call_def)
  have second: "getOrCreateUser (JStr e) (JNum tid) name2 s1
             = \<lparr>outcome = CallbackOk u1, db = s2, logs = []\<rparr>"
    using ok valid found
    by (simp add: getOrCreateUser_def joi_string_def joi_number_def string_value_def
          number_value_def db_User_findOrCreate_def fail1 s2_def)
  have same: "users s2 = users s1" by (simp add: s2_def store_call_def)
  from new have "filter ?key (users s) = []"
    by (simp add: filter_empty_conv)
  with key1 have one: "filter ?key (users s2) = [u1]"
    by (simp add: s2_def s1_def store_call_def)
  have len: "length (users s2) = length (users s) + 1"
    by (simp add: s2_def s1_def store_call_def)
  have mem: "u1 \<in> set (users s1)" by (simp add: s1_def store_call_def)
  have fields: "external_id u1 = e \<and> user_tenant_id u1 = tid \<and> name u1 = name1"
    by (simp add: u1_def)
  from first mem fields second same one len show ?thesis by blast
qed

text \<open>
  The second call of \<^verbatim>\<open>getOrCreateUser\<close> on a natural key reports the row of the first
  call as it is: the name given to the second call is not stored.
\<close>

theorem getOrCreateUser_second_call_keeps_name:
  "outcome (getOrCreateUser (JStr ''u2'') (JNum 1) (Some ''Bea'')
              (db (getOrCreateUser (JStr ''u2'') (JNum 1) (Some ''Bob'') example_store)))
   = CallbackOk \<lparr>user_row_id = 2, external_id = ''u2'', user_tenant_id = 1, name = Some ''Bob''\<rparr>"
  by (simp add: getOrCreateUser_def joi_string_def joi_number_def string_value_def
        number_value_def db_User_findOrCreate_def store_call_def fresh_id_def
        example_store_def Let_def)

text \<open>
  Claim C3, amended. When the store calls do not fail and the arguments are valid,
  the first call of \<^verbatim>\<open>getOrCreateCourse\<close>, and of \<^verbatim>\<open>getOrCreateUser\<close>, on a natural key
  of no row creates a row of that key with the given defaults, stores it and reports
  it. The second call on that key creates no row and leaves one row of that key: for
  a course it reports that row updated with the keys present in the new course info;
  for a user it reports that row unchanged, and the users table is as the first call
  left it.
\<close>

theorem getOrCreate_second_call:
  assumes "failure s Course_findOrCreate = None" and "failure s Course_update = None"
    and "failure s User_findOrCreate = None"
    and "info_name info1 \<noteq> Some []" and "info_privacydashboard_url info1 \<noteq> Some []"
    and "info_name info2 \<noteq> Some []" and  "info_privacydashboard_url info2 \<noteq> Some []"
    and "e \<noteq> []"
    and "\<forall>c \<in> set (courses s). \<not> (canvas_course_id c = n \<and> course_tenant_id c = tenant_row_id t)"
    and "\<forall>u \<in> set (users s). \<not> (external_id u = e \<and> user_tenant_id u = tid)"
  shows "(\<exists>c1 s1 c2 s2.
           getOrCreateCourse (JNum n) (Some t) (Some info1) s
             = \<lparr>outcome = CallbackOk c1, db = s1, logs = [(Info, ''Created a new course'')]\<rparr>
         \<and> c1 \<in> set (courses s1)
         \<and> canvas_course_id c1 = n \<and> course_tenant_id c1 = tenant_row_id t
         \<and> course_name c1 = info_name info1
         \<and> privacydashboard_url c1 = info_privacydashboard_url info1
         \<and> getOrCreateCourse (JNum n) (Some t) (Some info2) s1
             = \<lparr>outcome = CallbackOk c2, db = s2, logs = []\<rparr>
         \<and> c2 = c1\<lparr>course_name :=
                      (case info_name info2 of Some x \<Rightarrow> Some x | None \<Rightarrow> course_name c1),
                    privacydashboard_url :=
                      (case info_privacydashboard_url info2 of
                         Some x \<Rightarrow> Some x | None \<Rightarrow> privacydashboard_url c1)\<rparr>
         \<and> filter (\<lambda>c. canvas_course_id c = n \<and> course_tenant_id c = tenant_row_id t) (courses s2) = [c2]
         \<and> length (courses s2) = length (courses s) + 1)
       \<and> (\<exists>u1 s1 s2.
           getOrCreateUser (JStr e) (JNum tid) name1 s
             = \<lparr>outcome = CallbackOk u1, db = s1, logs = [(Info, ''Created a new user'')]\<rparr>
         \<and> u1 \<in> set (users s1)
         \<and> external_id u1 = e \<and> user_tenant_id u1 = tid \<and> name u1 = name1
         \<and> getOrCreateUser (JStr e) (JNum tid) name2 s1
             = \<lparr>outcome = CallbackOk u1, db = s2, logs = []\<rparr>
         \<and> users s2 = users s1
         \<and> filter (\<lambda>u. external_id u = e \<and> user_tenant_id u = tid) (users s2) = [u1]
         \<and> length (users s2) = length (users s) + 1)"
  using getOrCreateCourse_twice [OF assms(1,2,4,5,6,7,9)]
        getOrCreateUser_twice [OF assms(3,8,10)]
  by (rule conjI)

theorem getOrCreate_second_call_witness:
  "outcome (getOrCreateCourse (JNum 42) (Some \<lparr>tenant_row_id = 1, tenant_api_domain = ''lrs.example.edu'',
                                               lti_key = ''0123456789abcdef0123456789ABCDEF''\<rparr>)
              (Some \<lparr>info_name = Some ''Logic II'', info_privacydashboard_url = None\<rparr>)
              (db (getOrCreateCourse (JNum 42)
                     (Some \<lparr>tenant_row_id = 1, tenant_api_domain = ''lrs.example.edu'',
                            lti_key = ''0123456789abcdef0123456789ABCDEF''\<rparr>)
                     (Some \<lparr>info_name = Some ''Logic'', info_privacydashboard_url = Some ''https://lrs/42''\<rparr>)
                     example_store)))
   = CallbackOk \<lparr>course_row_id = 1, canvas_course_id = 42, course_tenant_id = 1,
                  course_name = Some ''Logic II'', privacydashboard_url = Some ''https://lrs/42''\<rparr>
   \<and> outcome (getOrCreateUser (JStr ''u2'') (JNum 1) (Some ''Bea'')
              (db (getOrCreateUser (JStr ''u2'') (JNum 1) (Some ''Bob'') example_store)))
   = CallbackOk \<lparr>user_row_id = 2, external_id = ''u2'', user_tenant_id = 1, name = Some ''Bob''\<rparr>"
proof -
  let ?t = "\<lparr>tenant_row_id = 1, tenant_api_domain = ''lrs.example.edu'',
             lti_key = ''0123456789abcdef0123456789ABCDEF''\<rparr>"
  let ?info1 = "\<lparr>info_name = Some ''Logic'', info_privacydashboard_url = Some ''https://lrs/42''\<rparr>"
  let ?info2 = "\<lparr>info_name = Some ''Logic II'', info_privacydashboard_url = None\<rparr>"
  have s: "failure example_store Course_findOrCreate = None"
          "failure example_store Course_update = None"
          "failure example_store User_findOrCreate = None"
    by (simp_all add: example_store_def)
  have v: "info_name ?info1 \<noteq> Some []" "info_privacydashboard_url ?info1 \<noteq> Some []"
          "info_name ?info2 \<noteq> Some []" "info_privacydashboard_url ?info2 \<noteq> Some []"
          "''u2'' \<noteq> []"
    by simp_all
  have n: "\<forall>c \<in> set (courses example_store).
             \<not> (canvas_course_id c = 42 \<and> course_tenant_id c = tenant_row_id ?t)"
          "\<forall>u \<in> set (users example_store). \<not> (external_id u = ''u2'' \<and> user_tenant_id u = 1)"
    by (simp_all add: example_store_def)
  from getOrCreate_second_call [OF s v n, of "Some ''Bob''" "Some ''Bea''"]
  obtain c1 s1 c2 s2 u1 s1' s2' where
    c: "getOrCreateCourse (JNum 42) (Some ?t) (Some ?info1) example_store
          = \<lparr>outcome = CallbackOk c1, db = s1, logs = [(Info, ''Created a new course'')]\<rparr>"
       "getOrCreateCourse (JNum 42) (Some ?t) (Some ?info2) s1
          = \<lparr>outcome = CallbackOk c2, db = s2, logs = []\<rparr>"
       "c2 = c1\<lparr>course_name :=
                   (case info_name ?info2 of Some x \<Rightarrow> Some x | None \<Rightarrow> course_name c1),
                 privacydashboard_url :=
                   (case info_privacydashboard_url ?info2 of
                      Some x \<Rightarrow> Some x | None \<Rightarrow> privacydashboard_url c1)\<rparr>"
    and u: "getOrCreateUser (JStr ''u2'') (JNum 1) (Some ''Bob'') example_store
          = \<lparr>outcome = CallbackOk u1, db = s1', logs = [(Info, ''Created a new user'')]\<rparr>"
       "getOrCreateUser (JStr ''u2'') (JNum 1) (Some ''Bea'') s1'
          = \<lparr>outcome = CallbackOk u1, db = s2', logs = []\<rparr>"
    by blast
  have c1: "outcome (getOrCreateCourse (JNum 42) (Some ?t) (Some ?info1) example_store)
            = CallbackOk \<lparr>course_row_id = 1, canvas_course_id = 42, course_tenant_id = 1,
                  course_name = Some ''Logic'', privacydashboard_url = Some ''https://lrs/42''\<rparr>"
    by (simp add: getOrCreateCourse_def joi_number_def joi_string_key_def number_value_def
          db_Course_findOrCreate_def store_call_def fresh_id_def example_store_def Let_def)
  have u1: "outcome (getOrCreateUser (JStr ''u2'') (JNum 1) (Some ''Bob'') example_store)
            = CallbackOk \<lparr>user_row_id = 2, external_id = ''u2'', user_tenant_id = 1,
                           name = Some ''Bob''\<rparr>"
    by (simp add: getOrCreateUser_def joi_string_def joi_number_def string_value_def
          number_value_def db_User_findOrCreate_def store_call_def fresh_id_def
          example_store_def Let_def)
  from c c1 have "outcome (getOrCreateCourse (JNum 42) (Some ?t) (Some ?info2)
                    (db (getOrCreateCourse (JNum 42) (Some ?t) (Some ?info1) example_store)))
                  = CallbackOk \<lparr>course_row_id = 1, canvas_course_id = 42, course_tenant_id = 1,
                      course_name = Some ''Logic II'', privacydashboard_url = Some ''https://lrs/42''\<rparr>"
    by simp
  moreover from u u1
  have "outcome (getOrCreateUser (JStr ''u2'') (JNum 1) (Some ''Bea'')
              (db (getOrCreateUser (JStr ''u2'') (JNum 1) (Some ''Bob'') example_store)))
        = CallbackOk \<lparr>user_row_id = 2, external_id = ''u2'', user_tenant_id = 1, name = Some ''Bob''\<rparr>"
    by simp
  ultimately show ?thesis by (rule conjI)
qed

section \<open>Opting in and out when the store fails\<close>

text \<open>
  With \<^verbatim>\<open>share\<close> true, the callback is invoked at line 406, outside the promise of
  \<^verbatim>\<open>destroy\<close>, and the rejection handler of lines 403 to 405 only logs: a failed delete
  reaches the log and not the caller, and no opt-out row is removed.
\<close>

lemma saveUserOptOut_delete_failure_logged:
  assumes "Option.bind ctx' user = Some u" and "share dataUse' = JBool True"
    and "failure s Opt_out_destroy = Some m"
  shows "outcome (saveUserOptOut ctx' dataUse' s) = CallbackOk ()
       \<and> logs (saveUserOptOut ctx' dataUse' s) = [(Info, ''Sample datause input :''), (Error, m)]
       \<and> opt_outs (db (saveUserOptOut ctx' dataUse' s)) = opt_outs s"
  using assms
  by (simp add: saveUserOptOut_def db_Opt_out_destroy_def store_call_def)

text \<open>
  With \<^verbatim>\<open>share\<close> false, \<^verbatim>\<open>getOrCreateOptOutDetails\<close> hands the error of code 500 to the
  callback \<^verbatim>\<open>saveUserOptOut\<close> gave it, and that callback throws at line 380, on the
  unbound \<^verbatim>\<open>id\<close>, before it reaches \<^verbatim>\<open>callback(err)\<close> on line 381.
\<close>

lemma getOrCreateOptOutDetails_failure:
  assumes "Option.bind ctx' user = Some u" and "failure s Opt_out_findOrCreate = Some m"
  shows "outcome (getOrCreateOptOutDetails ctx' dataUse' s) = CallbackErr \<lparr>code = 500, msg = m\<rparr>"
  using assms
  by (simp add: getOrCreateOptOutDetails_def db_Opt_out_findOrCreate_def)

lemma saveUserOptOut_create_failure_throws:
  assumes "Option.bind ctx' user = Some u" and "share dataUse' = JBool False"
    and "failure s Opt_out_findOrCreate = Some m"
  shows "outcome (saveUserOptOut ctx' dataUse' s) = Throws ReferenceError
       \<and> opt_outs (db (saveUserOptOut ctx' dataUse' s)) = opt_outs s"
  using assms
  by (simp add: saveUserOptOut_def getOrCreateOptOutDetails_def
        db_Opt_out_findOrCreate_def store_call_def)

text \<open>
  Claim C4. For every call to \<^verbatim>\<open>saveUserOptOut\<close> in which the store call fails, the
  failure is surfaced to the caller as an error of code 500 that wraps the store's
  message, for the delete with \<^verbatim>\<open>share\<close> true as for the find-or-create with \<^verbatim>\<open>share\<close>
  false. The code does neither: for a context with a user and a store call failing
  with the message \<open>m\<close>, with \<^verbatim>\<open>share\<close> true the callback is invoked without an error
  and \<open>m\<close> is only logged, with \<^verbatim>\<open>share\<close> false a ReferenceError is thrown and the
  callback is not invoked; in both cases the caller is not given the error
  \<^verbatim>\<open>{code: 500, msg: m}\<close>.
\<close>

theorem saveUserOptOut_store_failure_not_surfaced:
  assumes "Option.bind ctx' user = Some u"
  shows "(share dataUse' = JBool True \<and> failure s Opt_out_destroy = Some m
          \<longrightarrow> outcome (saveUserOptOut ctx' dataUse' s) = CallbackOk ()
              \<and> logs (saveUserOptOut ctx' dataUse' s)
                  = [(Info, ''Sample datause input :''), (Error, m)]
              \<and> outcome (saveUserOptOut ctx' dataUse' s) \<noteq> CallbackErr \<lparr>code = 500, msg = m\<rparr>)
       \<and> (share dataUse' = JBool False \<and> failure s Opt_out_findOrCreate = Some m
          \<longrightarrow> outcome (saveUserOptOut ctx' dataUse' s) = Throws ReferenceError
              \<and> outcome (saveUserOptOut ctx' dataUse' s) \<noteq> CallbackErr \<lparr>code = 500, msg = m\<rparr>)"
proof (intro conjI impI)
  assume h: "share dataUse' = JBool True \<and> failure s Opt_out_destroy = Some m"
  from saveUserOptOut_delete_failure_logged [OF assms, of dataUse' s m] h
  show "outcome (saveUserOptOut ctx' dataUse' s) = CallbackOk ()"
    and "logs (saveUserOptOut ctx' dataUse' s) = [(Info, ''Sample datause input :''), (Error, m)]"
    and "outcome (saveUserOptOut ctx' dataUse' s) \<noteq> CallbackErr \<lparr>code = 500, msg = m\<rparr>"
    by simp_all
next
  assume h: "share dataUse' = JBool False \<and> failure s Opt_out_findOrCreate = Some m"
  from saveUserOptOut_create_failure_throws [OF assms, of dataUse' s m] h
  show "outcome (saveUserOptOut ctx' dataUse' s) = Throws ReferenceError"
    and "outcome (saveUserOptOut ctx' dataUse' s) \<noteq> CallbackErr \<lparr>code = 500, msg = m\<rparr>"
    by simp_all
qed

theorem saveUserOptOut_store_failure_not_surfaced_witness:
  "outcome (saveUserOptOut (Some example_ctx) \<lparr>dataUse_id = 1, share = JBool True\<rparr>
              (failing_store Opt_out_destroy ''connection refused'')) = CallbackOk ()
   \<and> logs (saveUserOptOut (Some example_ctx) \<lparr>dataUse_id = 1, share = JBool True\<rparr>
              (failing_store Opt_out_destroy ''connection refused''))
       = [(Info, ''Sample datause input :''), (Error, ''connection refused'')]
   \<and> outcome (saveUserOptOut (Some example_ctx) \<lparr>dataUse_id = 2, share = JBool False\<rparr>
              (failing_store Opt_out_findOrCreate ''connection refused''))
       = Throws ReferenceError"
  using saveUserOptOut_store_failure_not_surfaced
          [of "Some example_ctx" "\<lparr>ctx_user_id = 1, ctx_user_tenant_id = 1\<rparr>"
              "\<lparr>dataUse_id = 1, share = JBool True\<rparr>"
              "failing_store Opt_out_destroy ''connection refused''" "''connection refused''"]
        saveUserOptOut_store_failure_not_surfaced
          [of "Some example_ctx" "\<lparr>ctx_user_id = 1, ctx_user_tenant_id = 1\<rparr>"
              "\<lparr>dataUse_id = 2, share = JBool False\<rparr>"
              "failing_store Opt_out_findOrCreate ''connection refused''" "''connection refused''"]
  by (simp add: failing_store_def example_ctx_def)

text \<open>Opting out twice leaves one opt-out row for the pair.\<close>

lemma saveUserOptOut_opt_out_twice:
  "opt_outs (db (saveUserOptOut (Some example_ctx) \<lparr>dataUse_id = 2, share = JBool False\<rparr>
      (db (saveUserOptOut (Some example_ctx) \<lparr>dataUse_id = 2, share = JBool False\<rparr> example_store))))
   = [\<lparr>user_id = 1, credential_id = 1\<rparr>, \<lparr>user_id = 1, credential_id = 2\<rparr>]"
  by (simp add: saveUserOptOut_def getOrCreateOptOutDetails_def Let_def
        db_Opt_out_findOrCreate_def store_call_def example_store_def example_ctx_def)

section \<open>Opting out: a share value that is not a boolean\<close>

text \<open>
  Claim C8. For every call to \<^verbatim>\<open>saveUserOptOut\<close> whose \<^verbatim>\<open>share\<close> field is neither the
  boolean true nor the boolean false, the callback is invoked without an error and
  the store, hence the opt-out state of every (user, credential) pair, is unchanged.
\<close>

theorem saveUserOptOut_non_boolean_share:
  assumes "share dataUse' \<noteq> JBool True" and "share dataUse' \<noteq> JBool False"
  shows "outcome (saveUserOptOut ctx' dataUse' s) = CallbackOk ()
       \<and> db (saveUserOptOut ctx' dataUse' s) = s
       \<and> opt_outs (db (saveUserOptOut ctx' dataUse' s)) = opt_outs s"
  using assms by (simp add: saveUserOptOut_def)

theorem saveUserOptOut_non_boolean_share_witness:
  "outcome (saveUserOptOut (Some example_ctx) \<lparr>dataUse_id = 1, share = JStr ''false''\<rparr> example_store)
     = CallbackOk ()
   \<and> db (saveUserOptOut (Some example_ctx) \<lparr>dataUse_id = 1, share = JStr ''false''\<rparr> example_store)
     = example_store"
  using saveUserOptOut_non_boolean_share
          [of "\<lparr>dataUse_id = 1, share = JStr ''false''\<rparr>" "Some example_ctx" example_store]
  by simp

section \<open>The guard of \<^verbatim>\<open>getDataUses\<close>\<close>

text \<open>
  Claim C9. A call to \<^verbatim>\<open>getDataUses\<close> with a context that is present but has no
  \<^verbatim>\<open>auth\<close> field throws (the guard dereferences \<^verbatim>\<open>ctx.auth.tenant_id\<close>) instead of
  reporting the \<^verbatim>\<open>{code: 500}\<close> error; the guard's error report, the one logged as a
  warning, is given exactly when the context is absent or its tenant id is falsy.
\<close>


theorem getDataUses_missing_auth_throws:
  "(auth c = None \<longrightarrow> outcome (getDataUses linked (Some c) s) = Throws TypeError)
   \<and> ((outcome (getDataUses linked ctx' s)
          = CallbackErr \<lparr>code = 500,
              msg = ''Prevented getting the projects that have access to the current user data''\<rparr>
        \<and> logs (getDataUses linked ctx' s)
          = [(Warn, ''Prevented getting the projects that have access to the current user data'')])
       \<longleftrightarrow> (ctx' = None
            \<or> (\<exists>c' a. ctx' = Some c' \<and> auth c' = Some a
                  \<and> (auth_tenant_id a = None \<or> auth_tenant_id a = Some 0))))"
  by (auto simp: getDataUses_def getDataUses_guard_def db_Credential_findAll_def
           split: option.splits sum.splits prod.splits if_splits)

theorem getDataUses_missing_auth_throws_witness:
  "outcome (getDataUses (\<lambda>s c. []) (Some \<lparr>user = None, auth = None\<rparr>) example_store) = Throws TypeError
   \<and> outcome (getDataUses (\<lambda>s c. []) None example_store)
       = CallbackErr \<lparr>code = 500,
           msg = ''Prevented getting the projects that have access to the current user data''\<rparr>
   \<and> outcome (getDataUses (\<lambda>s c. []) (Some \<lparr>user = None, auth = Some \<lparr>auth_tenant_id = Some 0\<rparr>\<rparr>)
                example_store)
       = CallbackErr \<lparr>code = 500,
           msg = ''Prevented getting the projects that have access to the current user data''\<rparr>"
  using getDataUses_missing_auth_throws
          [of "\<lparr>user = None, auth = None\<rparr>" "\<lambda>s c. []" example_store None]
        getDataUses_missing_auth_throws
          [of "\<lparr>user = None, auth = None\<rparr>" "\<lambda>s c. []" example_store
              "Some \<lparr>user = None, auth = Some \<lparr>auth_tenant_id = Some 0\<rparr>\<rparr>"]
  by simp

section \<open>A user that does not exist\<close>

text \<open>
  Claim C10. \<^verbatim>\<open>getUserByExternalId\<close> with a non-empty string id and a numeric tenant id
  that match no stored user reports success with an absent user, when the lookup
  itself does not fail; no call of it ever reports an error of code 404, whereas
  \<^verbatim>\<open>getCourse\<close> reports 404 for an id of no course.
\<close>

theorem getUserByExternalId_absent_user:
  assumes "ext \<noteq> []"
    and "failure s User_findOne = None"
    and "\<forall>u \<in> set (users s). \<not> (external_id u = ext \<and> user_tenant_id u = tid)"
  shows "outcome (getUserByExternalId (JStr ext) (JNum tid) s) = CallbackOk None
       \<and> (\<forall>x y s' e. outcome (getUserByExternalId x y s') = CallbackErr e \<longrightarrow> code e \<noteq> 404)
       \<and> (failure s Course_findByPk = None \<and> (\<forall>c \<in> set (courses s). course_row_id c \<noteq> pk)
            \<longrightarrow> outcome (getCourse pk s)
                  = CallbackErr \<lparr>code = 404, msg = ''Failed to retrieve the course''\<rparr>)"
proof -
  from assms(3)
  have none: "find (\<lambda>u. external_id u = ext \<and> user_tenant_id u = tid) (users s) = None"
    by (simp add: find_None_iff)
  have a: "outcome (getUserByExternalId (JStr ext) (JNum tid) s) = CallbackOk None"
    using assms(1,2) none
    by (simp add: getUserByExternalId_def joi_string_def joi_number_def db_User_findOne_def
          string_value_def number_value_def)
  have b: "\<And>x y s' e. outcome (getUserByExternalId x y s') = CallbackErr e \<Longrightarrow> code e \<noteq> 404"
    by (auto simp: getUserByExternalId_def db_User_findOne_def
             split: option.splits sum.splits prod.splits)
  have c: "failure s Course_findByPk = None \<and> (\<forall>c \<in> set (courses s). course_row_id c \<noteq> pk)
            \<longrightarrow> outcome (getCourse pk s)
                  = CallbackErr \<lparr>code = 404, msg = ''Failed to retrieve the course''\<rparr>"
  proof
    assume h: "failure s Course_findByPk = None \<and> (\<forall>c \<in> set (courses s). course_row_id c \<noteq> pk)"
    then have "find (\<lambda>c. course_row_id c = pk) (courses s) = None"
      by (simp add: find_None_iff)
    with h show "outcome (getCourse pk s)
                  = CallbackErr \<lparr>code = 404, msg = ''Failed to retrieve the course''\<rparr>"
      by (simp add: getCourse_def db_Course_findByPk_def)
  qed
  from a b c show ?thesis by blast
qed

theorem getUserByExternalId_absent_user_witness:
  "outcome (getUserByExternalId (JStr ''u2'') (JNum 1) example_store) = CallbackOk None
   \<and> outcome (getCourse 5 example_store)
       = CallbackErr \<lparr>code = 404, msg = ''Failed to retrieve the course''\<rparr>"
  using getUserByExternalId_absent_user [of "''u2''" example_store 1 5]
  by (simp add: example_store_def)

section \<open>The list of data uses\<close>

text \<open>
  What a successful \<^verbatim>\<open>getDataUses\<close> reports: the tenant id is truthy, the store call
  did not fail, and the list is the view of the credentials selected by the filter of
  lines 313 to 325, in the order of the table.
\<close>

lemma getDataUses_proceeds:
  assumes "ctx' = Some c" and "auth c = Some a" and "auth_tenant_id a = Some tenantId"
    and "outcome (getDataUses linked ctx' s) = CallbackOk uses"
  shows "tenantId \<noteq> 0 \<and> failure s Credential_findAll = None
       \<and> uses =
           map (\<lambda>dataUse.
                  \<lparr>use_id = credential_row_id dataUse, use_name = credential_name dataUse,
                   use_description = description dataUse, use_anonymous = anonymous dataUse,
                   use_share =
                     (case user c of
                        None \<Rightarrow> True
                      | Some u \<Rightarrow>
                          length (filter (\<lambda>r. user_row_id r = ctx_user_id u \<and> user_tenant_id r = tenantId)
                                    (linked s dataUse)) \<le> 0)\<rparr>)
             (filter (\<lambda>cr. (credential_tenant_id cr = Some tenantId \<and> datashare cr = True)
                           \<or> credential_tenant_id cr = None)
                (credentials s))"
  using assms
  by (auto simp: getDataUses_def getDataUses_guard_def db_Credential_findAll_def Let_def
           split: option.splits sum.splits prod.splits if_splits)

text \<open>
  Claim C6. For every call to \<^verbatim>\<open>getDataUses\<close> whose context carries a tenant id but no
  current user, every record of the list reported has \<^verbatim>\<open>share\<close> true.
\<close>

theorem getDataUses_no_user_share:
  assumes "ctx' = Some c" and "user c = None"
    and "auth c = Some a" and "auth_tenant_id a = Some tenantId"
    and "outcome (getDataUses linked ctx' s) = CallbackOk uses"
  shows "\<forall>r \<in> set uses. use_share r = True"
  using getDataUses_proceeds [OF assms(1,3,4,5)] assms(2) by simp

theorem getDataUses_no_user_share_witness:
  "outcome (getDataUses (\<lambda>s c. []) (Some \<lparr>user = None, auth = Some \<lparr>auth_tenant_id = Some 1\<rparr>\<rparr>)
      example_store)
   = CallbackOk
       [\<lparr>use_id = 1, use_name = ''Dashboard'', use_description = ''Course dashboard'',
         use_anonymous = False, use_share = True\<rparr>,
        \<lparr>use_id = 2, use_name = ''Research'', use_description = ''Campus research'',
         use_anonymous = True, use_share = True\<rparr>]
   \<and> list_all use_share
       [\<lparr>use_id = 1, use_name = ''Dashboard'', use_description = ''Course dashboard'',
         use_anonymous = False, use_share = True\<rparr>,
        \<lparr>use_id = 2, use_name = ''Research'', use_description = ''Campus research'',
         use_anonymous = True, use_share = True\<rparr>]"
proof -
  have run: "outcome (getDataUses (\<lambda>s c. []) (Some \<lparr>user = None, auth = Some \<lparr>auth_tenant_id = Some 1\<rparr>\<rparr>)
      example_store)
   = CallbackOk
       [\<lparr>use_id = 1, use_name = ''Dashboard'', use_description = ''Course dashboard'',
         use_anonymous = False, use_share = True\<rparr>,
        \<lparr>use_id = 2, use_name = ''Research'', use_description = ''Campus research'',
         use_anonymous = True, use_share = True\<rparr>]"
    by (simp add: getDataUses_def getDataUses_guard_def db_Credential_findAll_def example_store_def)
  from getDataUses_no_user_share [OF refl _ _ _ run, of "\<lparr>auth_tenant_id = Some 1\<rparr>" 1] run
  show ?thesis by (simp add: list_all_iff)
qed

text \<open>
  Claim C5. In the list \<^verbatim>\<open>getDataUses\<close> reports, a credential whose \<^verbatim>\<open>datashare\<close> flag
  is false and whose tenant is given and is not the caller's never appears (credentials
  being told apart by their id, the primary key), and a credential of no tenant always
  appears, with its id, name, description and anonymous flag, whatever the caller's
  tenant is.
\<close>

theorem getDataUses_visibility:
  assumes "ctx' = Some cx" and "auth cx = Some a" and "auth_tenant_id a = Some tenantId"
    and "outcome (getDataUses linked ctx' s) = CallbackOk uses"
    and "c \<in> set (credentials s)"
  shows "(datashare c = False \<and> credential_tenant_id c = Some t \<and> t \<noteq> tenantId
            \<and> distinct (map credential_row_id (credentials s))
          \<longrightarrow> credential_row_id c \<notin> use_id ` set uses)
       \<and> (credential_tenant_id c = None
          \<longrightarrow> (\<exists>r \<in> set uses. use_id r = credential_row_id c \<and> use_name r = credential_name c
                  \<and> use_description r = description c \<and> use_anonymous r = anonymous c))"
proof -
  define sel where "sel = filter (\<lambda>cr. (credential_tenant_id cr = Some tenantId \<and> datashare cr = True)
                           \<or> credential_tenant_id cr = None) (credentials s)"
  define view where "view = (\<lambda>dataUse.
                  \<lparr>use_id = credential_row_id dataUse, use_name = credential_name dataUse,
                   use_description = description dataUse, use_anonymous = anonymous dataUse,
                   use_share =
                     (case user cx of
                        None \<Rightarrow> True
                      | Some u \<Rightarrow>
                          length (filter (\<lambda>r. user_row_id r = ctx_user_id u \<and> user_tenant_id r = tenantId)
                                    (linked s dataUse)) \<le> 0)\<rparr>)"
  from getDataUses_proceeds [OF assms(1-4)]
  have uses: "uses = map view sel"
    by (simp add: sel_def view_def)
  have hidden: "credential_row_id c \<notin> use_id ` set uses"
    if h: "datashare c = False" "credential_tenant_id c = Some t" "t \<noteq> tenantId"
      "distinct (map credential_row_id (credentials s))"
  proof
    assume "credential_row_id c \<in> use_id ` set uses"
    then obtain c2 where c2: "c2 \<in> set sel" "credential_row_id c2 = credential_row_id c"
      unfolding uses by (auto simp: view_def)
    from c2(1) have c2mem: "c2 \<in> set (credentials s)"
      by (simp add: sel_def)
    from h(4) have inj: "inj_on credential_row_id (set (credentials s))"
      by (simp add: distinct_map)
    have "c2 = c"
      by (rule inj_onD [OF inj c2(2) c2mem assms(5)])
    with c2(1) have "c \<in> set sel" by simp
    with h(1,2,3) show False by (simp add: sel_def)
  qed
  have shown: "\<exists>r \<in> set uses. use_id r = credential_row_id c \<and> use_name r = credential_name c
                  \<and> use_description r = description c \<and> use_anonymous r = anonymous c"
    if n: "credential_tenant_id c = None"
  proof -
    from n assms(5) have "c \<in> set sel" by (simp add: sel_def)
    then have "view c \<in> set uses" by (simp add: uses)
    moreover have "use_id (view c) = credential_row_id c \<and> use_name (view c) = credential_name c
                  \<and> use_description (view c) = description c \<and> use_anonymous (view c) = anonymous c"
      by (simp add: view_def)
    ultimately show ?thesis by (rule bexI [rotated])
  qed
  show ?thesis
  proof (intro conjI impI)
    assume "datashare c = False \<and> credential_tenant_id c = Some t \<and> t \<noteq> tenantId
            \<and> distinct (map credential_row_id (credentials s))"
    then show "credential_row_id c \<notin> use_id ` set uses"
      using hidden by simp
  next
    assume "credential_tenant_id c = None"
    then show "\<exists>r \<in> set uses. use_id r = credential_row_id c \<and> use_name r = credential_name c
                  \<and> use_description r = description c \<and> use_anonymous r = anonymous c"
      by (rule shown)
  qed
qed

theorem getDataUses_visibility_witness:
  "3 \<notin> use_id ` set
       [\<lparr>use_id = 1, use_name = ''Dashboard'', use_description = ''Course dashboard'',
         use_anonymous = False, use_share = False\<rparr>,
        \<lparr>use_id = 2, use_name = ''Research'', use_description = ''Campus research'',
         use_anonymous = True, use_share = True\<rparr>]
   \<and> outcome (getDataUses (\<lambda>s c. if credential_row_id c = 1 then users s else [])
        (Some example_ctx) example_store)
   = CallbackOk
       [\<lparr>use_id = 1, use_name = ''Dashboard'', use_description = ''Course dashboard'',
         use_anonymous = False, use_share = False\<rparr>,
        \<lparr>use_id = 2, use_name = ''Research'', use_description = ''Campus research'',
         use_anonymous = True, use_share = True\<rparr>]"
proof -
  let ?linked = "\<lambda>s c. if credential_row_id c = 1 then users s else []"
  let ?c3 = "\<lparr>credential_row_id = 3, credential_name = ''Other'', description = ''Other campus'',
          anonymous = False, datashare = False, credential_tenant_id = Some 2\<rparr>"
  have run: "outcome (getDataUses ?linked (Some example_ctx) example_store)
   = CallbackOk
       [\<lparr>use_id = 1, use_name = ''Dashboard'', use_description = ''Course dashboard'',
         use_anonymous = False, use_share = False\<rparr>,
        \<lparr>use_id = 2, use_name = ''Research'', use_description = ''Campus research'',
         use_anonymous = True, use_share = True\<rparr>]"
    by (simp add: getDataUses_def getDataUses_guard_def db_Credential_findAll_def
          example_store_def example_ctx_def)
  have mem: "?c3 \<in> set (credentials example_store)"
    by (simp add: example_store_def)
  from getDataUses_visibility [OF refl _ _ run mem, of "\<lparr>auth_tenant_id = Some 1\<rparr>" 1 2] run
  show ?thesis by (simp add: example_ctx_def example_store_def)
qed

section \<open>The LTI key of \<^verbatim>\<open>getTenant\<close>\<close>

text \<open>
  A key that is given and is not a string of 32 alphanumeric characters is refused
  with code 400, and the store is left untouched.
\<close>

lemma first_error_second:
  "first_error [e, Some m] = Some (case e of Some m' \<Rightarrow> m' | None \<Rightarrow> m)"
  by (cases e) simp_all

lemma getTenant_invalid_ltiKey:
  assumes "ltiKey \<noteq> JUndefined"
    and "\<forall>k. ltiKey = JStr k \<longrightarrow> \<not> (alphanum k \<and> length k = 32)"
  shows "\<exists>m. outcome (getTenant apiDomain ltiKey s) = CallbackErr \<lparr>code = 400, msg = m\<rparr>
       \<and> db (getTenant apiDomain ltiKey s) = s"
proof -
  from assms have "\<exists>m. joi_string_alphanum_length_32 key ltiKey = Some m" for key
    by (cases ltiKey) (simp_all add: joi_string_alphanum_length_32_def joi_string_def)
  then obtain m where \<open>joi_string_alphanum_length_32 ''"ltiKey"'' ltiKey = Some m\<close>
    by blast
  then show ?thesis
    by (simp add: getTenant_def first_error_second)
qed

text \<open>A valid domain and key of a stored tenant report that tenant.\<close>

lemma getTenant_valid_found:
  "outcome (getTenant (JStr ''lrs.example.edu'') (JStr ''0123456789abcdef0123456789ABCDEF'') example_store)
   = CallbackOk \<lparr>tenant_row_id = 1, tenant_api_domain = ''lrs.example.edu'',
                   lti_key = ''0123456789abcdef0123456789ABCDEF''\<rparr>"
  by (simp add: getTenant_def joi_string_alphanum_length_32_def joi_string_def alphanum_def
        db_Tenant_findOne_def store_call_def string_value_def example_store_def)

text \<open>
  Claim C7. \<^verbatim>\<open>getTenant\<close> with an \<^verbatim>\<open>ltiKey\<close> that is not a string of 32 alphanumeric
  characters, an absent key included, reports a validation error of code 400 and
  does not access the store. The schema of line 44 does not require the key: with an
  absent key and a valid domain, \<^verbatim>\<open>getTenant\<close> calls \<^verbatim>\<open>DB.Tenant.findOne\<close>, and whatever
  it reports is not an error of code 400.
\<close>

theorem getTenant_absent_ltiKey:
  assumes "d \<noteq> []"
  shows "calls (db (getTenant (JStr d) JUndefined s)) = calls s @ [Tenant_findOne]
       \<and> (\<forall>e. outcome (getTenant (JStr d) JUndefined s) = CallbackErr e \<longrightarrow> code e \<noteq> 400)"
  using assms
  by (auto simp: getTenant_def joi_string_alphanum_length_32_def joi_string_def
        db_Tenant_findOne_def store_call_def string_value_def
      split: option.splits)

theorem getTenant_absent_ltiKey_witness:
  "calls (db (getTenant (JStr ''lrs.example.edu'') JUndefined example_store)) = [Tenant_findOne]
   \<and> outcome (getTenant (JStr ''lrs.example.edu'') JUndefined example_store)
       = CallbackErr \<lparr>code = 404,
           msg = ''A Tenant(Canvas) instance with the specified api domain and consumer lti key could not be found''\<rparr>"
proof -
  have "outcome (getTenant (JStr ''lrs.example.edu'') JUndefined example_store)
       = CallbackErr \<lparr>code = 404,
           msg = ''A Tenant(Canvas) instance with the specified api domain and consumer lti key could not be found''\<rparr>"
    by (simp add: getTenant_def joi_string_alphanum_length_32_def joi_string_def
        db_Tenant_findOne_def store_call_def string_value_def example_store_def)
  with getTenant_absent_ltiKey [of "''lrs.example.edu''" example_store]
  show ?thesis by (simp add: example_store_def)
qed

end
